theory Spec2Isabelle
  imports Complex_Main
begin

section \<open>JavaScript numbers\<close>

text \<open>
  A JavaScript \<open>number\<close> is an IEEE-754 double. The model keeps every special value
  the card generators can observe: \<open>NaN\<close>, both infinities and both zeros (\<open>Fin 0\<close> is
  \<open>+0\<close>, \<open>NZero\<close> is \<open>-0\<close>). A finite value is an exact rational: rounding, overflow and
  underflow of the 64-bit format are not modelled.
\<close>

datatype jsnum = NaN | PInf | NInf | NZero | Fin rat

fun is_nan :: "jsnum \<Rightarrow> bool" where
  "is_nan NaN = True"
| "is_nan _ = False"

fun is_inf :: "jsnum \<Rightarrow> bool" where
  "is_inf PInf = True"
| "is_inf NInf = True"
| "is_inf _ = False"

fun is_zero :: "jsnum \<Rightarrow> bool" where
  "is_zero NZero = True"
| "is_zero (Fin q) = (q = 0)"
| "is_zero _ = False"

text \<open>The sign bit.\<close>

fun negative :: "jsnum \<Rightarrow> bool" where
  "negative NInf = True"
| "negative NZero = True"
| "negative (Fin q) = (q < 0)"
| "negative _ = False"

fun val :: "jsnum \<Rightarrow> rat" where
  "val (Fin q) = q"
| "val _ = 0"

fun mk_zero :: "bool \<Rightarrow> jsnum" where
  "mk_zero True = NZero"
| "mk_zero False = Fin 0"

fun mk_inf :: "bool \<Rightarrow> jsnum" where
  "mk_inf True = NInf"
| "mk_inf False = PInf"

text \<open>\<open>a / b\<close>: never throws; \<open>0/0\<close> and \<open>\<infinity>/\<infinity>\<close> are \<open>NaN\<close>, a non-zero value over a
  zero is an infinity whose sign is the exclusive or of the two sign bits.\<close>

definition jdiv :: "jsnum \<Rightarrow> jsnum \<Rightarrow> jsnum" where
  "jdiv a b =
     (if is_nan a \<or> is_nan b then NaN
      else if is_inf a then (if is_inf b then NaN else mk_inf (negative a \<noteq> negative b))
      else if is_inf b then mk_zero (negative a \<noteq> negative b)
      else if is_zero b then (if is_zero a then NaN else mk_inf (negative a \<noteq> negative b))
      else if is_zero a then mk_zero (negative a \<noteq> negative b)
      else Fin (val a / val b))"

definition jmul :: "jsnum \<Rightarrow> jsnum \<Rightarrow> jsnum" where
  "jmul a b =
     (if is_nan a \<or> is_nan b then NaN
      else if is_inf a \<or> is_inf b then
        (if is_zero a \<or> is_zero b then NaN else mk_inf (negative a \<noteq> negative b))
      else if is_zero a \<or> is_zero b then mk_zero (negative a \<noteq> negative b)
      else Fin (val a * val b))"

fun jneg :: "jsnum \<Rightarrow> jsnum" where
  "jneg NaN = NaN"
| "jneg PInf = NInf"
| "jneg NInf = PInf"
| "jneg NZero = Fin 0"
| "jneg (Fin q) = (if q = 0 then NZero else Fin (- q))"

definition jadd :: "jsnum \<Rightarrow> jsnum \<Rightarrow> jsnum" where
  "jadd a b =
     (if is_nan a \<or> is_nan b then NaN
      else if is_inf a then (if is_inf b \<and> a \<noteq> b then NaN else a)
      else if is_inf b then b
      else if a = NZero \<and> b = NZero then NZero
      else Fin (val a + val b))"

definition jsub :: "jsnum \<Rightarrow> jsnum \<Rightarrow> jsnum" where
  "jsub a b = jadd a (jneg b)"

text \<open>The relational operators \<open><\<close> and \<open>>\<close>: false as soon as one side is \<open>NaN\<close>; the
  two zeros compare equal.\<close>

fun jlt :: "jsnum \<Rightarrow> jsnum \<Rightarrow> bool" where
  "jlt NaN _ = False"
| "jlt _ NaN = False"
| "jlt PInf _ = False"
| "jlt _ NInf = False"
| "jlt NInf _ = True"
| "jlt _ PInf = True"
| "jlt a b = (val a < val b)"

definition jgt :: "jsnum \<Rightarrow> jsnum \<Rightarrow> bool" where
  "jgt a b = jlt b a"

text \<open>\<open>Math.max\<close> and \<open>Math.min\<close> on two arguments: \<open>NaN\<close> if either is \<open>NaN\<close>, and \<open>+0\<close>
  counts as larger than \<open>-0\<close>.\<close>

definition Math_max :: "jsnum \<Rightarrow> jsnum \<Rightarrow> jsnum" where
  "Math_max a b =
     (if is_nan a \<or> is_nan b then NaN
      else if jlt a b then b
      else if jlt b a then a
      else if a = NZero then b else a)"

definition Math_min :: "jsnum \<Rightarrow> jsnum \<Rightarrow> jsnum" where
  "Math_min a b =
     (if is_nan a \<or> is_nan b then NaN
      else if jlt a b then a
      else if jlt b a then b
      else if a = NZero then a else b)"

text \<open>Truthiness: a number is falsy when it is \<open>NaN\<close>, \<open>+0\<close> or \<open>-0\<close>; a string when it
  is empty; \<open>undefined\<close> always. \<open>x || d\<close> is \<open>x\<close> when \<open>x\<close> is truthy and \<open>d\<close> otherwise.\<close>

definition truthy :: "jsnum \<Rightarrow> bool" where
  "truthy x = (\<not> is_nan x \<and> \<not> is_zero x)"

definition num_or :: "jsnum \<Rightarrow> jsnum \<Rightarrow> jsnum" where
  "num_or x d = (if truthy x then x else d)"

fun num_or_opt :: "jsnum option \<Rightarrow> jsnum \<Rightarrow> jsnum" where
  "num_or_opt None d = d"
| "num_or_opt (Some x) d = num_or x d"

fun str_or_opt :: "string option \<Rightarrow> string \<Rightarrow> string" where
  "str_or_opt None d = d"
| "str_or_opt (Some s) d = (if s = [] then d else s)"

text \<open>Equality of two numbers as numbers: the sign of a zero is ignored, and \<open>NaN\<close> is
  the same value as \<open>NaN\<close> (the \<open>SameValueZero\<close> comparison of the language).\<close>

definition same_num :: "jsnum \<Rightarrow> jsnum \<Rightarrow> bool" where
  "same_num x y = (x = y \<or> (is_zero x \<and> is_zero y))"

section \<open>Option records\<close>

record PaddingOptions =
  pado_top :: "jsnum option"
  pado_right :: "jsnum option"
  pado_bottom :: "jsnum option"
  pado_left :: "jsnum option"

record Padding =
  pad_top :: jsnum
  pad_right :: jsnum
  pad_bottom :: jsnum
  pad_left :: jsnum

text \<open>\<open>options.padding?.top || d\<close> and its three siblings.\<close>

fun opt_field :: "'r option \<Rightarrow> ('r \<Rightarrow> 'a option) \<Rightarrow> 'a option" where
  "opt_field None f = None"
| "opt_field (Some r) f = f r"

definition normPadding :: "PaddingOptions option \<Rightarrow> jsnum \<Rightarrow> Padding" where
  "normPadding p d =
     \<lparr> pad_top = num_or_opt (opt_field p pado_top) d,
       pad_right = num_or_opt (opt_field p pado_right) d,
       pad_bottom = num_or_opt (opt_field p pado_bottom) d,
       pad_left = num_or_opt (opt_field p pado_left) d \<rparr>"

subsection \<open>RankCard\<close>

record RankFontSizeOptions =
  rfo_username :: "jsnum option"
  rfo_rank :: "jsnum option"
  rfo_level :: "jsnum option"
  rfo_xp :: "jsnum option"

record RankFontSize =
  rf_username :: jsnum
  rf_rank :: jsnum
  rf_level :: jsnum
  rf_xp :: jsnum

record RankCardOptions =
  ro_username :: string
  ro_discriminator :: "string option"
  ro_avatarUrl :: string
  ro_rank :: jsnum
  ro_level :: jsnum
  ro_currentXP :: jsnum
  ro_nextLevelXP :: jsnum
  ro_progress :: "jsnum option"
  ro_backgroundColor :: "string option"
  ro_textColor :: "string option"
  ro_accentColor :: "string option"
  ro_rankColor :: "string option"
  ro_levelColor :: "string option"
  ro_progressBarColor :: "string option"
  ro_progressBarBackgroundColor :: "string option"
  ro_backgroundImage :: "string option"
  ro_fontSize :: "RankFontSizeOptions option"
  ro_padding :: "PaddingOptions option"
  ro_borderRadius :: "jsnum option"
  ro_showProgress :: "bool option"

record RankCardConfig =
  r_username :: string
  r_discriminator :: string
  r_avatarUrl :: string
  r_rank :: jsnum
  r_level :: jsnum
  r_currentXP :: jsnum
  r_nextLevelXP :: jsnum
  r_progress :: jsnum
  r_backgroundColor :: string
  r_textColor :: string
  r_accentColor :: string
  r_rankColor :: string
  r_levelColor :: string
  r_progressBarColor :: string
  r_progressBarBackgroundColor :: string
  r_backgroundImage :: string
  r_fontSize :: RankFontSize
  r_padding :: Padding
  r_borderRadius :: jsnum
  r_showProgress :: bool

definition calculateProgress :: "jsnum \<Rightarrow> jsnum \<Rightarrow> jsnum" where
  "calculateProgress currentXP nextLevelXP =
     Math_min (Fin 100) (Math_max (Fin 0) (jmul (jdiv currentXP nextLevelXP) (Fin 100)))"

definition RankCard :: "RankCardOptions \<Rightarrow> RankCardConfig" where
  "RankCard options =
     \<lparr> r_username = ro_username options,
       r_discriminator = str_or_opt (ro_discriminator options) ''#0000'',
       r_avatarUrl = ro_avatarUrl options,
       r_rank = ro_rank options,
       r_level = ro_level options,
       r_currentXP = ro_currentXP options,
       r_nextLevelXP = ro_nextLevelXP options,
       r_progress = num_or_opt (ro_progress options)
                      (calculateProgress (ro_currentXP options) (ro_nextLevelXP options)),
       r_backgroundColor = str_or_opt (ro_backgroundColor options) ''#2C2F33'',
       r_textColor = str_or_opt (ro_textColor options) ''#FFFFFF'',
       r_accentColor = str_or_opt (ro_accentColor options) ''#7289DA'',
       r_rankColor = str_or_opt (ro_rankColor options) ''#FFD700'',
       r_levelColor = str_or_opt (ro_levelColor options) ''#7289DA'',
       r_progressBarColor = str_or_opt (ro_progressBarColor options) ''#43B581'',
       r_progressBarBackgroundColor =
         str_or_opt (ro_progressBarBackgroundColor options) ''#23272A'',
       r_backgroundImage = str_or_opt (ro_backgroundImage options) [],
       r_fontSize =
         \<lparr> rf_username = num_or_opt (opt_field (ro_fontSize options) rfo_username) (Fin 32),
           rf_rank = num_or_opt (opt_field (ro_fontSize options) rfo_rank) (Fin 24),
           rf_level = num_or_opt (opt_field (ro_fontSize options) rfo_level) (Fin 20),
           rf_xp = num_or_opt (opt_field (ro_fontSize options) rfo_xp) (Fin 16) \<rparr>,
       r_padding = normPadding (ro_padding options) (Fin 30),
       r_borderRadius = num_or_opt (ro_borderRadius options) (Fin 10),
       r_showProgress = (case ro_showProgress options of None \<Rightarrow> True | Some b \<Rightarrow> b) \<rparr>"

section \<open>Strings, errors and the host environment\<close>

text \<open>\<open>String.prototype.startsWith\<close>, \<open>includes\<close> and \<open>split\<close> with a one-character
  separator. \<open>js_split\<close> keeps empty fields, as the language does: two adjacent
  separators give an empty word.\<close>

fun startsWith :: "string \<Rightarrow> string \<Rightarrow> bool" where
  "startsWith s [] = True"
| "startsWith [] (p # ps) = False"
| "startsWith (c # cs) (p # ps) = (c = p \<and> startsWith cs ps)"

fun str_includes :: "string \<Rightarrow> string \<Rightarrow> bool" where
  "str_includes [] p = (p = [])"
| "str_includes (c # cs) p = (startsWith (c # cs) p \<or> str_includes cs p)"

fun js_split :: "char \<Rightarrow> string \<Rightarrow> string list" where
  "js_split sep [] = [[]]"
| "js_split sep (c # cs) =
     (if c = sep then [] # js_split sep cs
      else (case js_split sep cs of [] \<Rightarrow> [[c]] | w # ws \<Rightarrow> (c # w) # ws))"

text \<open>A template literal with interpolated numbers is kept as its pieces, so that the
  decimal rendering of a number stays outside the model.\<close>

datatype piece = Str string | Num jsnum | Loc jsnum

text \<open>What a rejected promise carries: an \<open>Error\<close> object with its message, or some
  other value.\<close>

datatype thrown = Error string | NonError

datatype bitmap = Bitmap nat

record response =
  resp_status :: nat
  resp_statusText :: string
  resp_arrayBuffer :: "thrown + nat list"

text \<open>\<open>response.ok\<close> of the HTTP client: a status in the range 200 to 299.\<close>

definition resp_ok :: "response \<Rightarrow> bool" where
  "resp_ok r = (200 \<le> resp_status r \<and> resp_status r < 300)"

text \<open>The collaborators the generators call: the image decoder on a path and on a byte
  buffer (\<open>img.src = ...\<close>, settled through \<open>onload\<close>/\<open>onerror\<close>), the HTTP client, and
  the text metrics of the drawing context under a given font.\<close>

record env =
  loadPath :: "string \<Rightarrow> thrown + bitmap"
  loadBuffer :: "nat list \<Rightarrow> thrown + bitmap"
  fetch :: "string \<Rightarrow> thrown + response"
  measureText :: "piece list \<Rightarrow> string \<Rightarrow> jsnum"

text \<open>Sequencing of awaited steps: the first rejection aborts what follows.\<close>

fun and_then :: "thrown + 'a \<Rightarrow> ('a \<Rightarrow> thrown + 'b) \<Rightarrow> thrown + 'b" where
  "and_then (Inl e) f = Inl e"
| "and_then (Inr x) f = f x"

text \<open>\<open>loadAvatar\<close> is the same method in the three classes. The \<open>try\<close> block covers the
  fetch, the status check and the buffering of the body; the promise of the decoder is
  returned without being awaited, so its rejection is not seen by the \<open>catch\<close>.\<close>

definition errorMessage :: "thrown \<Rightarrow> string" where
  "errorMessage error = (case error of Error m \<Rightarrow> m | NonError \<Rightarrow> ''Unknown error'')"

definition fetchBody :: "env \<Rightarrow> string \<Rightarrow> thrown + nat list" where
  "fetchBody E avatarUrl =
     and_then (fetch E avatarUrl) (\<lambda>response.
       if \<not> resp_ok response
       then Inl (Error (''Failed to fetch image: '' @ resp_statusText response))
       else resp_arrayBuffer response)"

definition loadAvatar :: "env \<Rightarrow> string \<Rightarrow> thrown + bitmap" where
  "loadAvatar E avatarUrl =
     (if startsWith avatarUrl ''./'' \<or> startsWith avatarUrl ''/''
           \<or> \<not> str_includes avatarUrl ''://''
      then loadPath E avatarUrl
      else (case fetchBody E avatarUrl of
              Inl error \<Rightarrow>
                Inl (Error (''Failed to load external avatar: '' @ avatarUrl @ ''. Error: ''
                            @ errorMessage error))
            | Inr buffer \<Rightarrow> loadBuffer E buffer))"

text \<open>\<open>loadBackground\<close> of ProfileCard and RankCard: no reference, no bitmap; otherwise
  the reference goes to the decoder as it is.\<close>

definition loadBackground :: "env \<Rightarrow> string \<Rightarrow> thrown + bitmap option" where
  "loadBackground E backgroundImage =
     (if backgroundImage = [] then Inr None
      else and_then (loadPath E backgroundImage) (\<lambda>img. Inr (Some img)))"

section \<open>The drawing surface\<close>

text \<open>A surface is the sequence of calls made on its 2D context; the encoder is a
  function of that sequence. Angles are multiples of \<open>\<pi>\<close>.\<close>

datatype angle = PiTimes rat

datatype paint = Color string | LinearGradient jsnum jsnum jsnum jsnum "(rat \<times> string) list"

datatype draw_op =
    SetFillStyle paint
  | FillRect jsnum jsnum jsnum jsnum
  | SetGlobalAlpha rat
  | DrawImage bitmap jsnum jsnum jsnum jsnum
  | DrawSurface jsnum jsnum "draw_op list" jsnum jsnum
  | SetFilter string
  | BeginPath
  | ClosePath
  | Arc jsnum jsnum jsnum angle angle
  | FillPath
  | ClipPath
  | Save
  | Restore
  | SetFont "piece list"
  | FillText "piece list" jsnum jsnum
  | SetTextAlign string
  | SetStrokeStyle string
  | SetLineWidth jsnum
  | StrokeRect jsnum jsnum jsnum jsnum
  | MoveTo jsnum jsnum
  | LineTo jsnum jsnum
  | QuadraticCurveTo jsnum jsnum jsnum jsnum

text \<open>The rounded-rectangle clip that ends every \<open>toBuffer\<close>.\<close>

definition roundedCorners :: "jsnum \<Rightarrow> jsnum \<Rightarrow> jsnum \<Rightarrow> draw_op list" where
  "roundedCorners width height radius =
     [BeginPath,
      MoveTo radius (Fin 0),
      LineTo (jsub width radius) (Fin 0),
      QuadraticCurveTo width (Fin 0) width radius,
      LineTo width (jsub height radius),
      QuadraticCurveTo width height (jsub width radius) height,
      LineTo radius height,
      QuadraticCurveTo (Fin 0) height (Fin 0) (jsub height radius),
      LineTo (Fin 0) radius,
      QuadraticCurveTo (Fin 0) (Fin 0) radius (Fin 0),
      ClosePath,
      ClipPath]"

text \<open>The background stage of ProfileCard and RankCard, which differ in the alpha of the
  image and in the stops of the overlay.\<close>

definition drawBackgroundWith ::
  "env \<Rightarrow> jsnum \<Rightarrow> jsnum \<Rightarrow> string \<Rightarrow> string \<Rightarrow> rat \<Rightarrow> (rat \<times> string) list
     \<Rightarrow> thrown + draw_op list" where
  "drawBackgroundWith E width height backgroundColor backgroundImage alpha stops =
     and_then
       (if backgroundImage \<noteq> [] then
          and_then (loadBackground E backgroundImage) (\<lambda>bg.
            case bg of
              None \<Rightarrow> Inr []
            | Some img \<Rightarrow>
                Inr [SetGlobalAlpha alpha,
                     DrawImage img (Fin 0) (Fin 0) width height,
                     SetGlobalAlpha 1])
        else Inr [])
       (\<lambda>imageOps.
          Inr ([SetFillStyle (Color backgroundColor), FillRect (Fin 0) (Fin 0) width height]
               @ imageOps
               @ [SetFillStyle (LinearGradient (Fin 0) (Fin 0) width height stops),
                  FillRect (Fin 0) (Fin 0) width height]))"

section \<open>RankCard: the drawing stages\<close>

definition rank_drawBackground :: "env \<Rightarrow> RankCardConfig \<Rightarrow> thrown + draw_op list" where
  "rank_drawBackground E c =
     drawBackgroundWith E (Fin 900) (Fin 300) (r_backgroundColor c) (r_backgroundImage c)
       (15 / 100) [(0, ''rgba(0, 0, 0, 0.4)''), (1, ''rgba(0, 0, 0, 0.6)'')]"

definition rank_drawAvatar :: "env \<Rightarrow> RankCardConfig \<Rightarrow> thrown + draw_op list" where
  "rank_drawAvatar E c =
     (let avatarSize = Fin 80;
          x = pad_left (r_padding c);
          y = jadd (pad_top (r_padding c))
                (jdiv (jsub (jsub (jsub (Fin 300) (pad_top (r_padding c)))
                         (pad_bottom (r_padding c))) avatarSize) (Fin 2));
          cx = jadd x (jdiv avatarSize (Fin 2));
          cy = jadd y (jdiv avatarSize (Fin 2))
      in and_then (loadAvatar E (r_avatarUrl c)) (\<lambda>avatar.
           Inr [BeginPath,
                Arc cx cy (jadd (jdiv avatarSize (Fin 2)) (Fin 4)) (PiTimes 0) (PiTimes 2),
                SetFillStyle (Color (r_accentColor c)),
                FillPath,
                Save,
                BeginPath,
                Arc cx cy (jdiv avatarSize (Fin 2)) (PiTimes 0) (PiTimes 2),
                ClosePath,
                ClipPath,
                DrawImage avatar x y avatarSize avatarSize,
                Restore]))"

definition rank_drawRankInfo :: "RankCardConfig \<Rightarrow> draw_op list" where
  "rank_drawRankInfo c =
     (let left = pad_left (r_padding c);
          avatarSize = Fin 80;
          tx = jadd (jadd left avatarSize) (Fin 30);
          fsU = rf_username (r_fontSize c);
          fsR = rf_rank (r_fontSize c);
          fsL = rf_level (r_fontSize c);
          y0 = pad_top (r_padding c);
          y1 = jadd (jadd (num_or y0 (Fin 0)) (num_or fsU (Fin 0))) (Fin 15);
          y2 = jadd (jadd (num_or y1 (Fin 0)) (num_or fsU (Fin 0))) (Fin 25);
          y3 = jadd (jadd (num_or y2 (Fin 0)) (num_or fsR (Fin 0))) (Fin 15)
      in [SetFont [Str ''bold '', Num fsU, Str ''px Arial''],
          SetFillStyle (Color (r_textColor c)),
          FillText [Str (r_username c)] tx (jadd (num_or y0 (Fin 0)) (num_or fsU (Fin 0))),
          SetFont [Num (jsub (num_or fsU (Fin 0)) (Fin 8)), Str ''px Arial''],
          SetFillStyle (Color ''#AAAAAA''),
          FillText [Str (r_discriminator c)] tx
            (jadd (num_or y1 (Fin 0)) (jsub (num_or fsU (Fin 0)) (Fin 8))),
          SetFont [Str ''bold '', Num fsR, Str ''px Arial''],
          SetFillStyle (Color (r_rankColor c)),
          FillText [Str ''Rank #'', Num (r_rank c)] tx
            (jadd (num_or y2 (Fin 0)) (num_or fsR (Fin 0))),
          SetFont [Num fsL, Str ''px Arial''],
          SetFillStyle (Color (r_levelColor c)),
          FillText [Str ''Level '', Num (r_level c)] tx
            (jadd (num_or y3 (Fin 0)) (num_or fsL (Fin 0)))])"

definition progressBarWidth :: "RankCardConfig \<Rightarrow> jsnum" where
  "progressBarWidth c =
     jsub (jsub (Fin 900) (jadd (jadd (pad_left (r_padding c)) (Fin 80)) (Fin 60)))
       (pad_right (r_padding c))"

definition progressWidth :: "RankCardConfig \<Rightarrow> jsnum" where
  "progressWidth c = jdiv (jmul (progressBarWidth c) (r_progress c)) (Fin 100)"

definition rank_drawXPInfo :: "RankCardConfig \<Rightarrow> draw_op list" where
  "rank_drawXPInfo c =
     (let left = pad_left (r_padding c);
          avatarSize = Fin 80;
          progressBarHeight = Fin 12;
          progressBarY = jsub (jsub (Fin 300) (pad_bottom (r_padding c))) (Fin 40);
          progressBarX = jadd (jadd left avatarSize) (Fin 30)
      in [SetFont [Num (rf_xp (r_fontSize c)), Str ''px Arial''],
          SetFillStyle (Color (r_textColor c)),
          FillText [Loc (r_currentXP c), Str '' / '', Loc (r_nextLevelXP c), Str '' XP'']
            (jadd (jadd left avatarSize) (Fin 30))
            (jsub (jsub (Fin 300) (pad_bottom (r_padding c))) (Fin 20)),
          SetFillStyle (Color (r_progressBarBackgroundColor c)),
          FillRect progressBarX progressBarY (progressBarWidth c) progressBarHeight]
         @ (if r_showProgress c
            then [SetFillStyle (Color (r_progressBarColor c)),
                  FillRect progressBarX progressBarY (progressWidth c) progressBarHeight]
            else [])
         @ [SetStrokeStyle (r_accentColor c),
            SetLineWidth (Fin 1),
            StrokeRect progressBarX progressBarY (progressBarWidth c) progressBarHeight])"

text \<open>\<open>toBuffer\<close>: the stages in order, the rounded clip, then the encoder. The result
  is the sequence of calls the encoder sees, or the rejection of the first stage that
  failed.\<close>

definition rank_toBuffer :: "env \<Rightarrow> RankCardConfig \<Rightarrow> thrown + draw_op list" where
  "rank_toBuffer E c =
     and_then (rank_drawBackground E c) (\<lambda>background.
     and_then (rank_drawAvatar E c) (\<lambda>avatar.
       Inr (background @ avatar @ rank_drawRankInfo c @ rank_drawXPInfo c
            @ roundedCorners (Fin 900) (Fin 300) (r_borderRadius c))))"

section \<open>ProfileCard\<close>

record ProfileFontSizeOptions =
  pfo_username :: "jsnum option"
  pfo_bio :: "jsnum option"
  pfo_badges :: "jsnum option"

record ProfileFontSize =
  pf_username :: jsnum
  pf_bio :: jsnum
  pf_badges :: jsnum

record ProfileCardOptions =
  po_username :: string
  po_discriminator :: "string option"
  po_avatarUrl :: string
  po_status :: "string option"
  po_statusColor :: "string option"
  po_bio :: "string option"
  po_badges :: "string list option"
  po_backgroundColor :: "string option"
  po_textColor :: "string option"
  po_accentColor :: "string option"
  po_backgroundImage :: "string option"
  po_fontSize :: "ProfileFontSizeOptions option"
  po_padding :: "PaddingOptions option"
  po_borderRadius :: "jsnum option"
  po_layout :: "string option"

record ProfileCardConfig =
  p_username :: string
  p_discriminator :: string
  p_avatarUrl :: string
  p_status :: string
  p_statusColor :: string
  p_bio :: string
  p_badges :: "string list"
  p_backgroundColor :: string
  p_textColor :: string
  p_accentColor :: string
  p_backgroundImage :: string
  p_fontSize :: ProfileFontSize
  p_padding :: Padding
  p_borderRadius :: jsnum
  p_layout :: string

definition getStatusColor :: "string \<Rightarrow> string" where
  "getStatusColor status =
     (if status = ''online'' then ''#43B581''
      else if status = ''idle'' then ''#FAA61A''
      else if status = ''dnd'' then ''#F04747''
      else if status = ''offline'' then ''#747F8D''
      else ''#747F8D'')"

definition ProfileCard :: "ProfileCardOptions \<Rightarrow> ProfileCardConfig" where
  "ProfileCard options =
     \<lparr> p_username = po_username options,
       p_discriminator = str_or_opt (po_discriminator options) ''#0000'',
       p_avatarUrl = po_avatarUrl options,
       p_status = str_or_opt (po_status options) ''online'',
       p_statusColor = str_or_opt (po_statusColor options)
                         (getStatusColor (str_or_opt (po_status options) ''online'')),
       p_bio = str_or_opt (po_bio options) [],
       p_badges = (case po_badges options of None \<Rightarrow> [] | Some bs \<Rightarrow> bs),
       p_backgroundColor = str_or_opt (po_backgroundColor options) ''#2C2F33'',
       p_textColor = str_or_opt (po_textColor options) ''#FFFFFF'',
       p_accentColor = str_or_opt (po_accentColor options) ''#7289DA'',
       p_backgroundImage = str_or_opt (po_backgroundImage options) [],
       p_fontSize =
         \<lparr> pf_username = num_or_opt (opt_field (po_fontSize options) pfo_username) (Fin 32),
           pf_bio = num_or_opt (opt_field (po_fontSize options) pfo_bio) (Fin 16),
           pf_badges = num_or_opt (opt_field (po_fontSize options) pfo_badges) (Fin 14) \<rparr>,
       p_padding = normPadding (po_padding options) (Fin 30),
       p_borderRadius = num_or_opt (po_borderRadius options) (Fin 10),
       p_layout = str_or_opt (po_layout options) ''vertical'' \<rparr>"

definition profile_drawBackground :: "env \<Rightarrow> ProfileCardConfig \<Rightarrow> thrown + draw_op list" where
  "profile_drawBackground E c =
     drawBackgroundWith E (Fin 800) (Fin 400) (p_backgroundColor c) (p_backgroundImage c)
       (2 / 10) [(0, ''rgba(0, 0, 0, 0.3)''), (1, ''rgba(0, 0, 0, 0.7)'')]"

definition profile_avatarSize :: "ProfileCardConfig \<Rightarrow> jsnum" where
  "profile_avatarSize c = (if p_layout c = ''horizontal'' then Fin 100 else Fin 120)"

definition profile_drawAvatar :: "env \<Rightarrow> ProfileCardConfig \<Rightarrow> thrown + draw_op list" where
  "profile_drawAvatar E c =
     (let avatarSize = profile_avatarSize c;
          x = pad_left (p_padding c);
          y = (if p_layout c = ''horizontal''
               then pad_top (p_padding c)
               else jadd (pad_top (p_padding c))
                      (jdiv (jsub (jsub (jsub (Fin 400) (pad_top (p_padding c)))
                               (pad_bottom (p_padding c))) avatarSize) (Fin 2)));
          cx = jadd x (jdiv avatarSize (Fin 2));
          cy = jadd y (jdiv avatarSize (Fin 2));
          statusSize = Fin 16;
          statusX = jsub (jsub (jadd x avatarSize) (jdiv statusSize (Fin 2))) (Fin 2);
          statusY = jsub (jsub (jadd y avatarSize) (jdiv statusSize (Fin 2))) (Fin 2)
      in and_then (loadAvatar E (p_avatarUrl c)) (\<lambda>avatar.
           Inr [BeginPath,
                Arc cx cy (jadd (jdiv avatarSize (Fin 2)) (Fin 3)) (PiTimes 0) (PiTimes 2),
                SetFillStyle (Color (p_accentColor c)),
                FillPath,
                Save,
                BeginPath,
                Arc cx cy (jdiv avatarSize (Fin 2)) (PiTimes 0) (PiTimes 2),
                ClosePath,
                ClipPath,
                DrawImage avatar x y avatarSize avatarSize,
                Restore,
                BeginPath,
                Arc (jadd statusX (jdiv statusSize (Fin 2))) (jadd statusY (jdiv statusSize (Fin 2)))
                  (jdiv statusSize (Fin 2)) (PiTimes 0) (PiTimes 2),
                SetFillStyle (Color (p_statusColor c)),
                FillPath]))"

text \<open>The word-wrap loop of \<open>drawText\<close>, from index \<open>i\<close> on: the words still to place,
  the line built so far and the running \<open>currentY\<close>. It returns the \<open>fillText\<close> calls
  made inside the loop, the line left over and the final \<open>currentY\<close>.\<close>

fun wrapLoop ::
  "(string \<Rightarrow> jsnum) \<Rightarrow> jsnum \<Rightarrow> jsnum \<Rightarrow> jsnum \<Rightarrow> string list \<Rightarrow> nat \<Rightarrow> string \<Rightarrow> jsnum
     \<Rightarrow> draw_op list \<times> string \<times> jsnum" where
  "wrapLoop widthOf maxWidth tx fs [] i line currentY = ([], line, currentY)"
| "wrapLoop widthOf maxWidth tx fs (w # ws) i line currentY =
     (let testLine = line @ w @ '' '';
          testWidth = widthOf testLine
      in if jgt testWidth maxWidth \<and> 0 < i
         then (case wrapLoop widthOf maxWidth tx fs ws (Suc i) (w @ '' '')
                      (jadd (jadd (num_or currentY (Fin 0)) (num_or fs (Fin 0))) (Fin 5)) of
                 (ops, rest) \<Rightarrow>
                   (FillText [Str line] tx (jadd (num_or currentY (Fin 0)) (num_or fs (Fin 0)))
                      # ops, rest))
         else wrapLoop widthOf maxWidth tx fs ws (Suc i) testLine currentY)"

text \<open>The bio block: split at spaces, run the loop, flush the last line.\<close>

definition wrapBio ::
  "(string \<Rightarrow> jsnum) \<Rightarrow> jsnum \<Rightarrow> jsnum \<Rightarrow> jsnum \<Rightarrow> string \<Rightarrow> jsnum \<Rightarrow> draw_op list \<times> jsnum" where
  "wrapBio widthOf maxWidth tx fs bio currentY =
     (case wrapLoop widthOf maxWidth tx fs (js_split CHR '' '' bio) 0 [] currentY of
        (ops, line, y) \<Rightarrow>
          (ops @ [FillText [Str line] tx (jadd (num_or y (Fin 0)) (num_or fs (Fin 0)))],
           jadd (jadd (num_or y (Fin 0)) (num_or fs (Fin 0))) (Fin 20)))"

text \<open>The texts a sequence of calls writes, in order.\<close>

fun textsOf :: "draw_op list \<Rightarrow> piece list list" where
  "textsOf [] = []"
| "textsOf (FillText t x y # ops) = t # textsOf ops"
| "textsOf (_ # ops) = textsOf ops"

text \<open>The badge loop: \<open>badgeY\<close> is fixed before the loop; \<open>currentY\<close> is advanced on a
  wrap but no call reads it afterwards.\<close>

definition bullet :: string where
  "bullet = [CHR 0xE2, CHR 0x80, CHR 0xA2]"

fun badgeLoop ::
  "(string \<Rightarrow> jsnum) \<Rightarrow> jsnum \<Rightarrow> jsnum \<Rightarrow> jsnum \<Rightarrow> jsnum \<Rightarrow> string list \<Rightarrow> jsnum \<Rightarrow> jsnum
     \<Rightarrow> draw_op list" where
  "badgeLoop widthOf limit startX badgeY fs [] badgeX currentY = []"
| "badgeLoop widthOf limit startX badgeY fs (badge # badges) badgeX currentY =
     (let badgeText = bullet @ '' '' @ badge;
          width = widthOf badgeText;
          wraps = jgt (jadd badgeX width) limit;
          badgeX1 = (if wraps then startX else badgeX);
          currentY1 = (if wraps
                       then jadd (jadd (num_or currentY (Fin 0)) (num_or fs (Fin 0))) (Fin 5)
                       else currentY)
      in FillText [Str badgeText] badgeX1 badgeY
           # badgeLoop widthOf limit startX badgeY fs badges
               (jadd (jadd badgeX1 width) (Fin 10)) currentY1)"

definition profile_drawText :: "env \<Rightarrow> ProfileCardConfig \<Rightarrow> draw_op list" where
  "profile_drawText E c =
     (let left = pad_left (p_padding c);
          avatarSize = profile_avatarSize c;
          tx = jadd (jadd left avatarSize) (Fin 30);
          fsU = pf_username (p_fontSize c);
          fsB = pf_bio (p_fontSize c);
          fsG = pf_badges (p_fontSize c);
          y0 = pad_top (p_padding c);
          y1 = jadd (jadd (num_or y0 (Fin 0)) (num_or fsU (Fin 0))) (Fin 10);
          y2 = jadd (jadd (num_or y1 (Fin 0)) (num_or fsU (Fin 0))) (Fin 20);
          header =
            (if p_layout c = ''vertical''
             then [SetFont [Str ''bold '', Num fsU, Str ''px Arial''],
                   SetFillStyle (Color (p_textColor c)),
                   FillText [Str (p_username c)] tx
                     (jadd (num_or y0 (Fin 0)) (num_or fsU (Fin 0))),
                   SetFont [Num (jsub (num_or fsU (Fin 0)) (Fin 8)), Str ''px Arial''],
                   SetFillStyle (Color ''#AAAAAA''),
                   FillText [Str (p_discriminator c)] tx
                     (jadd (num_or y1 (Fin 0)) (jsub (num_or fsU (Fin 0)) (Fin 8)))]
             else []);
          y3 = (if p_layout c = ''vertical'' then y2 else y0);
          maxWidth = jsub (Fin 800) (jadd (jadd left avatarSize) (Fin 60));
          bio =
            (if p_bio c \<noteq> []
             then wrapBio (measureText E [Num fsB, Str ''px Arial'']) maxWidth tx fsB (p_bio c) y3
             else ([], y3));
          y4 = snd bio;
          badges =
            (if p_badges c \<noteq> []
             then [SetFont [Num fsG, Str ''px Arial''], SetFillStyle (Color (p_accentColor c))]
                  @ badgeLoop (measureText E [Num fsG, Str ''px Arial''])
                      (jsub (Fin 800) (pad_right (p_padding c))) tx
                      (jadd (num_or y4 (Fin 0)) (num_or fsG (Fin 0))) fsG (p_badges c) tx y4
             else [])
      in header
         @ (if p_bio c \<noteq> []
            then [SetFont [Num fsB, Str ''px Arial''], SetFillStyle (Color (p_textColor c))]
                 @ fst bio
            else [])
         @ badges)"

definition profile_toBuffer :: "env \<Rightarrow> ProfileCardConfig \<Rightarrow> thrown + draw_op list" where
  "profile_toBuffer E c =
     and_then (profile_drawBackground E c) (\<lambda>background.
     and_then (profile_drawAvatar E c) (\<lambda>avatar.
       Inr (background @ avatar @ profile_drawText E c
            @ roundedCorners (Fin 800) (Fin 400) (p_borderRadius c))))"

section \<open>WelcomeCard\<close>

record WelcomeFontSizeOptions =
  wfo_title :: "jsnum option"
  wfo_subtitle :: "jsnum option"
  wfo_memberCount :: "jsnum option"

record WelcomeFontSize =
  wf_title :: jsnum
  wf_subtitle :: jsnum
  wf_memberCount :: jsnum

record WelcomeImageOptions =
  wo_username :: string
  wo_discriminator :: "string option"
  wo_avatarUrl :: string
  wo_serverName :: string
  wo_memberCount :: "jsnum option"
  wo_backgroundColor :: "string option"
  wo_textColor :: "string option"
  wo_accentColor :: "string option"
  wo_backgroundImage :: "string option"
  wo_fontSize :: "WelcomeFontSizeOptions option"
  wo_padding :: "PaddingOptions option"
  wo_borderRadius :: "jsnum option"

record WelcomeCardConfig =
  w_username :: string
  w_discriminator :: string
  w_avatarUrl :: string
  w_serverName :: string
  w_memberCount :: jsnum
  w_backgroundColor :: string
  w_textColor :: string
  w_accentColor :: string
  w_backgroundImage :: string
  w_fontSize :: WelcomeFontSize
  w_padding :: Padding
  w_borderRadius :: jsnum

definition WelcomeCard :: "WelcomeImageOptions \<Rightarrow> WelcomeCardConfig" where
  "WelcomeCard options =
     \<lparr> w_username = wo_username options,
       w_discriminator = str_or_opt (wo_discriminator options) ''#0000'',
       w_avatarUrl = wo_avatarUrl options,
       w_serverName = wo_serverName options,
       w_memberCount = num_or_opt (wo_memberCount options) (Fin 0),
       w_backgroundColor = str_or_opt (wo_backgroundColor options) ''#2C2F33'',
       w_textColor = str_or_opt (wo_textColor options) ''#FFFFFF'',
       w_accentColor = str_or_opt (wo_accentColor options) ''#7289DA'',
       w_backgroundImage = str_or_opt (wo_backgroundImage options) [],
       w_fontSize =
         \<lparr> wf_title = num_or_opt (opt_field (wo_fontSize options) wfo_title) (Fin 60),
           wf_subtitle = num_or_opt (opt_field (wo_fontSize options) wfo_subtitle) (Fin 28),
           wf_memberCount =
             num_or_opt (opt_field (wo_fontSize options) wfo_memberCount) (Fin 20) \<rparr>,
       w_padding = normPadding (wo_padding options) (Fin 60),
       w_borderRadius = num_or_opt (wo_borderRadius options) (Fin 15) \<rparr>"

text \<open>The background stage: the avatar, drawn over the whole of an offscreen surface, is
  put on the visible surface under the filter \<open>blur(8px)\<close>; then the overlay.\<close>

definition welcome_drawBackground :: "env \<Rightarrow> WelcomeCardConfig \<Rightarrow> thrown + draw_op list" where
  "welcome_drawBackground E c =
     and_then (loadAvatar E (w_avatarUrl c)) (\<lambda>avatar.
       Inr [Save,
            SetFilter ''blur(8px)'',
            DrawSurface (Fin 1024) (Fin 500)
              [DrawImage avatar (Fin 0) (Fin 0) (Fin 1024) (Fin 500)] (Fin 0) (Fin 0),
            SetFilter ''none'',
            Restore,
            SetFillStyle (LinearGradient (Fin 0) (Fin 0) (Fin 0) (Fin 500)
              [(0, ''rgba(0, 0, 0, 0.4)''), (1, ''rgba(0, 0, 0, 0.7)'')]),
            FillRect (Fin 0) (Fin 0) (Fin 1024) (Fin 500)])"

text \<open>\<open>drawAvatar\<close> of the welcome card is kept in the class and does nothing.\<close>

definition welcome_drawAvatar :: "WelcomeCardConfig \<Rightarrow> draw_op list" where
  "welcome_drawAvatar c = []"

definition welcome_drawText :: "WelcomeCardConfig \<Rightarrow> draw_op list" where
  "welcome_drawText c =
     (let discriminator = w_discriminator c;
          memberCount = w_memberCount c;
          fsS = wf_subtitle (w_fontSize c);
          fsM = wf_memberCount (w_fontSize c);
          topValue = num_or (pad_top (w_padding c)) (Fin 0);
          centerX = jdiv (Fin 1024) (Fin 2);
          startY = jadd topValue (Fin 100)
      in [SetFont [Str ''bold '', Num (wf_title (w_fontSize c)), Str ''px Arial''],
          SetFillStyle (Color (w_textColor c)),
          SetTextAlign ''center'',
          FillText [Str (w_username c)] centerX startY]
         @ (if discriminator \<noteq> []
            then [SetFont [Num fsS, Str ''px Arial''],
                  SetFillStyle (Color ''#AAAAAA''),
                  FillText [Str discriminator] centerX
                    (jadd (jadd startY (num_or fsS (Fin 0))) (Fin 5))]
            else [])
         @ [SetFont [Str ''bold '', Num fsS, Str ''px Arial''],
            SetFillStyle (Color (w_textColor c)),
            FillText [Str ''Welcome to '', Str (w_serverName c), Str ''!''] centerX
              (jadd (jadd startY (num_or fsS (Fin 0)))
                 (if discriminator \<noteq> [] then Fin 40 else Fin 60))]
         @ (if jgt memberCount (Fin 0)
            then [SetFont [Num fsM, Str ''px Arial''],
                  SetFillStyle (Color ''#AAAAAA''),
                  FillText [Str ''Member #'', Num memberCount] centerX
                    (jadd (jadd (jadd (jadd startY (num_or fsS (Fin 0)))
                                   (if discriminator \<noteq> [] then Fin 80 else Fin 100))
                             (num_or fsM (Fin 0))) (Fin 10))]
            else [])
         @ [SetTextAlign ''left''])"

definition welcome_drawAccentBar :: "WelcomeCardConfig \<Rightarrow> draw_op list" where
  "welcome_drawAccentBar c =
     (let barHeight = Fin 5;
          barWidth = jsub (Fin 1024) (jadd (pad_left (w_padding c)) (pad_right (w_padding c)));
          x = pad_left (w_padding c);
          y = jsub (jsub (Fin 500) (num_or (pad_bottom (w_padding c)) (Fin 0))) barHeight
      in [SetFillStyle (Color (w_accentColor c)), FillRect x y barWidth barHeight])"

definition welcome_toBuffer :: "env \<Rightarrow> WelcomeCardConfig \<Rightarrow> thrown + draw_op list" where
  "welcome_toBuffer E c =
     and_then (welcome_drawBackground E c) (\<lambda>background.
       Inr (background @ welcome_drawAvatar c @ welcome_drawText c @ welcome_drawAccentBar c
            @ roundedCorners (Fin 1024) (Fin 500) (w_borderRadius c)))"

text \<open>A render from the caller's side: construct, then \<open>toBuffer\<close>.\<close>

definition renderRank :: "env \<Rightarrow> RankCardOptions \<Rightarrow> thrown + draw_op list" where
  "renderRank E options = rank_toBuffer E (RankCard options)"

definition renderProfile :: "env \<Rightarrow> ProfileCardOptions \<Rightarrow> thrown + draw_op list" where
  "renderProfile E options = profile_toBuffer E (ProfileCard options)"

definition renderWelcome :: "env \<Rightarrow> WelcomeImageOptions \<Rightarrow> thrown + draw_op list" where
  "renderWelcome E options = welcome_toBuffer E (WelcomeCard options)"

section \<open>Vocabulary of the specification\<close>

text \<open>\<open>a <= b\<close> of the language, and "a number in [0,100]".\<close>

definition jle :: "jsnum \<Rightarrow> jsnum \<Rightarrow> bool" where
  "jle a b = (\<not> is_nan a \<and> \<not> is_nan b \<and> \<not> jlt b a)"

definition in_percent :: "jsnum \<Rightarrow> bool" where
  "in_percent x = (jle (Fin 0) x \<and> jle x (Fin 100))"

text \<open>The \<open>clamp(x, lo, hi)\<close> of the specification, by its meaning and independently of
  \<open>Math.min\<close> and \<open>Math.max\<close>: \<open>lo\<close> below \<open>lo\<close>, \<open>hi\<close> above \<open>hi\<close>, \<open>x\<close> itself otherwise.\<close>

definition clamp :: "jsnum \<Rightarrow> jsnum \<Rightarrow> jsnum \<Rightarrow> jsnum" where
  "clamp x lo hi = (if jlt x lo then lo else if jgt x hi then hi else x)"

text \<open>Whether \<open>options.progress || ...\<close> keeps the caller's value.\<close>

definition progressSupplied :: "RankCardOptions \<Rightarrow> bool" where
  "progressSupplied options =
     (case ro_progress options of None \<Rightarrow> False | Some p \<Rightarrow> truthy p)"

text \<open>The reference is classified as remote by \<open>loadAvatar\<close>.\<close>

definition isRemote :: "string \<Rightarrow> bool" where
  "isRemote url =
     (\<not> (startsWith url ''./'' \<or> startsWith url ''/'' \<or> \<not> str_includes url ''://''))"

text \<open>The message of the rejection after a non-success status.\<close>

definition fetchFailure :: "string \<Rightarrow> string \<Rightarrow> thrown" where
  "fetchFailure url statusText =
     Error (''Failed to load external avatar: '' @ url @ ''. Error: ''
            @ ''Failed to fetch image: '' @ statusText)"

text \<open>The background stage when no image is drawn: the solid colour, then the
  overlay.\<close>

definition solidBackground ::
  "jsnum \<Rightarrow> jsnum \<Rightarrow> string \<Rightarrow> (rat \<times> string) list \<Rightarrow> draw_op list" where
  "solidBackground width height color stops =
     [SetFillStyle (Color color), FillRect (Fin 0) (Fin 0) width height,
      SetFillStyle (LinearGradient (Fin 0) (Fin 0) width height stops),
      FillRect (Fin 0) (Fin 0) width height]"

text \<open>The exception of the specification, as it is worded: the line consists of a
  single word of the bio (alone, or with the space the loop appends to every word), and
  that word is by itself wider than the maximal width.\<close>

definition singleWideWord :: "(string \<Rightarrow> jsnum) \<Rightarrow> jsnum \<Rightarrow> string list \<Rightarrow> string \<Rightarrow> bool" where
  "singleWideWord widthOf maxWidth ws line =
     (\<exists>w\<in>set ws. (line = w \<or> line = w @ '' '') \<and> jgt (widthOf w) maxWidth)"

section \<open>The invariant of the word-wrap loop\<close>

text \<open>What the loop of \<open>drawText\<close> keeps true of the line it builds; it is weaker than the
  exception of the specification. The loop measures a word together with the space it
  appends: a lone-word line is one word of \<open>W\<close> followed by that space, and it is the word
  with the space that is wider than the maximal width, whether or not the word alone is.
  A line is within the invariant when it does not exceed the maximal width or is such a
  lone-word line.\<close>

definition loneWordLine :: "(string \<Rightarrow> jsnum) \<Rightarrow> jsnum \<Rightarrow> string set \<Rightarrow> string \<Rightarrow> bool" where
  "loneWordLine widthOf maxWidth W line =
     (\<exists>w\<in>W. line = w @ '' '' \<and> jgt (widthOf (w @ '' '')) maxWidth)"

definition fitsOrLoneWord :: "(string \<Rightarrow> jsnum) \<Rightarrow> jsnum \<Rightarrow> string set \<Rightarrow> string \<Rightarrow> bool" where
  "fitsOrLoneWord widthOf maxWidth W line =
     (jgt (widthOf line) maxWidth \<longrightarrow> loneWordLine widthOf maxWidth W line)"

section \<open>Concrete inputs\<close>

definition rankExample :: RankCardOptions where
  "rankExample =
     \<lparr> ro_username = ''ada'', ro_discriminator = None,
       ro_avatarUrl = ''https://cdn.example/a.png'',
       ro_rank = Fin 3, ro_level = Fin 7, ro_currentXP = Fin 50, ro_nextLevelXP = Fin 100,
       ro_progress = None, ro_backgroundColor = None, ro_textColor = None,
       ro_accentColor = None, ro_rankColor = None, ro_levelColor = None,
       ro_progressBarColor = None, ro_progressBarBackgroundColor = None,
       ro_backgroundImage = None, ro_fontSize = None, ro_padding = None,
       ro_borderRadius = None, ro_showProgress = None \<rparr>"

definition profileExample :: ProfileCardOptions where
  "profileExample =
     \<lparr> po_username = ''ada'', po_discriminator = None,
       po_avatarUrl = ''https://cdn.example/a.png'',
       po_status = None, po_statusColor = None, po_bio = None, po_badges = None,
       po_backgroundColor = None, po_textColor = None, po_accentColor = None,
       po_backgroundImage = None, po_fontSize = None, po_padding = None,
       po_borderRadius = None, po_layout = None \<rparr>"

definition welcomeExample :: WelcomeImageOptions where
  "welcomeExample =
     \<lparr> wo_username = ''ada'', wo_discriminator = None,
       wo_avatarUrl = ''https://cdn.example/a.png'', wo_serverName = ''lab'',
       wo_memberCount = None, wo_backgroundColor = None, wo_textColor = None,
       wo_accentColor = None, wo_backgroundImage = None, wo_fontSize = None,
       wo_padding = None, wo_borderRadius = None \<rparr>"

text \<open>A host whose HTTP client answers every request with \<open>404 Not Found\<close>, whose
  decoder accepts every path but \<open>missing.png\<close>, and whose text metrics give one unit
  per character.\<close>

definition notFound :: response where
  "notFound = \<lparr> resp_status = 404, resp_statusText = ''Not Found'', resp_arrayBuffer = Inr [] \<rparr>"

definition charWidth :: "string \<Rightarrow> jsnum" where
  "charWidth s = Fin (of_nat (length s))"

definition host404 :: env where
  "host404 =
     \<lparr> loadPath = (\<lambda>p. if p = ''missing.png'' then Inl (Error ''decode failed'')
                        else Inr (Bitmap 0)),
       loadBuffer = (\<lambda>b. Inr (Bitmap 1)),
       fetch = (\<lambda>u. Inr notFound),
       measureText = (\<lambda>font. charWidth) \<rparr>"

text \<open>A profile card whose text column is 8 units wide (\<open>800 - (612 + 120 + 60)\<close>), with a
  bio of two words, the second of 8 characters.\<close>

definition narrowProfile :: ProfileCardOptions where
  "narrowProfile =
     profileExample
       \<lparr> po_avatarUrl := ''a.png'', po_bio := Some ''aa abcdefgh'',
         po_padding := Some \<lparr> pado_top = None, pado_right = None, pado_bottom = None,
                              pado_left = Some (Fin 612) \<rparr> \<rparr>"

text \<open>Options whose optional values are falsy: zeros and empty strings.\<close>

definition zeroPadding :: PaddingOptions where
  "zeroPadding =
     \<lparr> pado_top = Some (Fin 0), pado_right = Some (Fin 0), pado_bottom = Some (Fin 0),
       pado_left = Some (Fin 0) \<rparr>"

definition rankFalsy :: RankCardOptions where
  "rankFalsy =
     rankExample
       \<lparr> ro_progress := Some (Fin 0), ro_backgroundColor := Some [], ro_textColor := Some [],
         ro_accentColor := Some [], ro_rankColor := Some [], ro_levelColor := Some [],
         ro_progressBarColor := Some [], ro_progressBarBackgroundColor := Some [],
         ro_fontSize := Some \<lparr> rfo_username = Some (Fin 0), rfo_rank = Some (Fin 0),
                               rfo_level = Some (Fin 0), rfo_xp = Some (Fin 0) \<rparr>,
         ro_padding := Some zeroPadding, ro_borderRadius := Some (Fin 0) \<rparr>"

definition profileFalsy :: ProfileCardOptions where
  "profileFalsy =
     profileExample
       \<lparr> po_statusColor := Some [], po_backgroundColor := Some [], po_textColor := Some [],
         po_accentColor := Some [],
         po_fontSize := Some \<lparr> pfo_username = Some (Fin 0), pfo_bio = Some (Fin 0),
                               pfo_badges = Some (Fin 0) \<rparr>,
         po_padding := Some zeroPadding, po_borderRadius := Some (Fin 0) \<rparr>"

definition welcomeFalsy :: WelcomeImageOptions where
  "welcomeFalsy =
     welcomeExample
       \<lparr> wo_backgroundColor := Some [], wo_textColor := Some [], wo_accentColor := Some [],
         wo_fontSize := Some \<lparr> wfo_title = Some (Fin 0), wfo_subtitle = Some (Fin 0),
                               wfo_memberCount = Some (Fin 0) \<rparr>,
         wo_padding := Some zeroPadding, wo_borderRadius := Some (Fin 0) \<rparr>"


section \<open>The progress of a rank card\<close>

lemma jmul_100: "jmul x (Fin 100) = (case x of Fin q \<Rightarrow> Fin (q * 100) | y \<Rightarrow> y)"
  by (cases x) (simp_all add: jmul_def)

lemma Math_max_0:
  "Math_max (Fin 0) x =
     (case x of NaN \<Rightarrow> NaN | PInf \<Rightarrow> PInf | NInf \<Rightarrow> Fin 0 | NZero \<Rightarrow> Fin 0
      | Fin q \<Rightarrow> Fin (max 0 q))"
  by (cases x) (simp_all add: Math_max_def max_def)

lemma Math_min_100:
  "Math_min (Fin 100) x =
     (case x of NaN \<Rightarrow> NaN | PInf \<Rightarrow> Fin 100 | NInf \<Rightarrow> NInf | NZero \<Rightarrow> NZero
      | Fin q \<Rightarrow> Fin (min 100 q))"
  by (cases x) (simp_all add: Math_min_def min_def)

text \<open>The progress computed from the two XP values, by the shape of the quotient.\<close>

lemma calculateProgress_cases:
  "calculateProgress c n =
     (case jdiv c n of NaN \<Rightarrow> NaN | PInf \<Rightarrow> Fin 100 | NInf \<Rightarrow> Fin 0 | NZero \<Rightarrow> Fin 0
      | Fin q \<Rightarrow> Fin (min 100 (max 0 (q * 100))))"
  by (cases "jdiv c n") (simp_all add: calculateProgress_def jmul_100 Math_max_0 Math_min_100)

lemma calculateProgress_range:
  "calculateProgress c n = NaN \<and> is_nan (jdiv c n)
   \<or> in_percent (calculateProgress c n) \<and> \<not> is_nan (jdiv c n)"
  by (cases "jdiv c n") (simp_all add: calculateProgress_cases in_percent_def jle_def)

lemma calculateProgress_clamp:
  "same_num (calculateProgress c n) (clamp (jmul (jdiv c n) (Fin 100)) (Fin 0) (Fin 100))"
  by (cases "jdiv c n")
     (simp_all add: calculateProgress_cases jmul_100 clamp_def jgt_def same_num_def min_def max_def)

lemma RankCard_progress_supplied:
  "progressSupplied options \<Longrightarrow> r_progress (RankCard options) = the (ro_progress options)"
  by (cases "ro_progress options") (simp_all add: progressSupplied_def RankCard_def num_or_def)

lemma RankCard_progress_derived:
  "\<not> progressSupplied options \<Longrightarrow>
     r_progress (RankCard options)
       = calculateProgress (ro_currentXP options) (ro_nextLevelXP options)"
  by (cases "ro_progress options") (simp_all add: progressSupplied_def RankCard_def num_or_def)

lemma jdiv_pos_zero: "jgt c (Fin 0) \<Longrightarrow> jdiv c (Fin 0) = PInf \<and> jdiv c NZero = NInf"
  by (cases c) (simp_all add: jdiv_def jgt_def)

lemma jdiv_zero_zero: "is_zero c \<Longrightarrow> is_zero n \<Longrightarrow> jdiv c n = NaN"
  by (cases c; cases n) (simp_all add: jdiv_def)

lemma jdiv_zero_pos: "is_zero c \<Longrightarrow> jgt n (Fin 0) \<Longrightarrow> is_zero (jdiv c n)"
  by (cases c; cases n) (simp_all add: jdiv_def jgt_def)

lemma progressWidth_nan: "r_progress c = NaN \<Longrightarrow> progressWidth c = NaN"
  by (simp add: progressWidth_def jmul_def jdiv_def)

text \<open>
  Claim C1, as stated: for every RankCard construction the normalized progress is a number
  in [0,100], whether it is supplied by the caller or derived from the XP values. It fails
  for a supplied value: the constructor keeps a truthy \<open>options.progress\<close> as it is, and
  a caller's 150 stays 150.
\<close>

theorem RankCard_progress_not_clamped:
  "r_progress (RankCard (rankExample\<lparr>ro_progress := Some (Fin 150)\<rparr>)) = Fin 150
   \<and> \<not> in_percent (r_progress (RankCard (rankExample\<lparr>ro_progress := Some (Fin 150)\<rparr>)))"
  by (simp add: rankExample_def RankCard_def num_or_def truthy_def in_percent_def jle_def)

text \<open>
  Claim C1, amended: a truthy progress supplied by the caller is stored unchanged, with no
  clamping; otherwise the progress is derived from \<open>currentXP / nextLevelXP\<close>, and the
  derived value is a number in [0,100] unless that quotient is \<open>NaN\<close>, in which case the
  progress is \<open>NaN\<close>.
\<close>

theorem RankCard_progress_range:
  "(progressSupplied options \<longrightarrow> ro_progress options = Some (r_progress (RankCard options)))
   \<and> (\<not> progressSupplied options \<longrightarrow>
        (if is_nan (jdiv (ro_currentXP options) (ro_nextLevelXP options))
         then r_progress (RankCard options) = NaN
         else in_percent (r_progress (RankCard options))))"
proof (cases "progressSupplied options")
  case True
  then obtain p where "ro_progress options = Some p"
    by (cases "ro_progress options") (simp_all add: progressSupplied_def)
  with True show ?thesis
    using RankCard_progress_supplied [OF True] by simp
next
  case False
  show ?thesis
    using False RankCard_progress_derived [OF False]
      calculateProgress_range [of "ro_currentXP options" "ro_nextLevelXP options"]
    by auto
qed

theorem RankCard_progress_range_witness:
  "ro_progress (rankExample\<lparr>ro_progress := Some (Fin 80)\<rparr>)
     = Some (r_progress (RankCard (rankExample\<lparr>ro_progress := Some (Fin 80)\<rparr>)))
   \<and> in_percent (r_progress (RankCard rankExample))"
  using RankCard_progress_range [of "rankExample\<lparr>ro_progress := Some (Fin 80)\<rparr>"]
    RankCard_progress_range [of rankExample]
  by (simp add: progressSupplied_def truthy_def rankExample_def jdiv_def)

text \<open>
  Claim C2: when no progress is supplied and \<open>nextLevelXP > 0\<close>, the progress of the
  card is \<open>clamp(currentXP / nextLevelXP * 100, 0, 100)\<close>, as a number (the sign of a
  zero apart). In particular 50 of 100 gives 50, 150 of 100 gives 100, and a
  \<open>currentXP\<close> of 0 gives 0.
\<close>

theorem calculateProgress_clamps:
  "(\<not> progressSupplied options \<and> jgt (ro_nextLevelXP options) (Fin 0) \<longrightarrow>
      same_num (r_progress (RankCard options))
        (clamp (jmul (jdiv (ro_currentXP options) (ro_nextLevelXP options)) (Fin 100))
           (Fin 0) (Fin 100)))
   \<and> (\<not> progressSupplied options \<and> ro_currentXP options = Fin 50
        \<and> ro_nextLevelXP options = Fin 100 \<longrightarrow> r_progress (RankCard options) = Fin 50)
   \<and> (\<not> progressSupplied options \<and> ro_currentXP options = Fin 150
        \<and> ro_nextLevelXP options = Fin 100 \<longrightarrow> r_progress (RankCard options) = Fin 100)
   \<and> (\<not> progressSupplied options \<and> ro_currentXP options = Fin 0
        \<and> jgt (ro_nextLevelXP options) (Fin 0) \<longrightarrow> r_progress (RankCard options) = Fin 0)"
proof (cases "progressSupplied options")
  case True
  then show ?thesis by simp
next
  case False
  have zero: "jgt n (Fin 0) \<Longrightarrow> calculateProgress (Fin 0) n = Fin 0" for n
    using jdiv_zero_pos [of "Fin 0" n]
    by (cases "jdiv (Fin 0) n") (simp_all add: calculateProgress_cases)
  show ?thesis
    using calculateProgress_clamp [of "ro_currentXP options" "ro_nextLevelXP options"] zero
    by (simp add: RankCard_progress_derived [OF False] False)
       (simp add: calculateProgress_cases jdiv_def)
qed

theorem calculateProgress_clamps_witness:
  "r_progress (RankCard rankExample) = Fin 50
   \<and> same_num (r_progress (RankCard rankExample)) (clamp (Fin 50) (Fin 0) (Fin 100))
   \<and> r_progress (RankCard (rankExample\<lparr>ro_currentXP := Fin 150\<rparr>)) = Fin 100
   \<and> r_progress (RankCard (rankExample\<lparr>ro_currentXP := Fin 0\<rparr>)) = Fin 0"
  using calculateProgress_clamps [of rankExample]
    calculateProgress_clamps [of "rankExample\<lparr>ro_currentXP := Fin 150\<rparr>"]
    calculateProgress_clamps [of "rankExample\<lparr>ro_currentXP := Fin 0\<rparr>"]
  by (simp add: progressSupplied_def rankExample_def jgt_def jdiv_def jmul_def clamp_def
        same_num_def)

text \<open>
  Claim C10, as stated: with \<open>nextLevelXP = 0\<close>, no truthy progress and \<open>currentXP > 0\<close>
  the quotient is infinity and the progress 100. The language has two zeros that are both
  equal to 0, and for the negative one the quotient is \<open>-Infinity\<close> and the progress 0.
\<close>

theorem RankCard_negative_zero_nextLevelXP:
  "is_zero (ro_nextLevelXP (rankExample\<lparr>ro_currentXP := Fin 5, ro_nextLevelXP := NZero\<rparr>))
   \<and> jdiv (Fin 5) NZero = NInf
   \<and> r_progress (RankCard (rankExample\<lparr>ro_currentXP := Fin 5, ro_nextLevelXP := NZero\<rparr>))
       = Fin 0"
  by (simp add: rankExample_def RankCard_def calculateProgress_cases jdiv_def)

text \<open>
  Claim C10, amended: the constructor is a total function of its options (nothing is
  thrown). With no truthy progress supplied: if \<open>nextLevelXP\<close> is \<open>+0\<close> and
  \<open>currentXP > 0\<close>, the quotient is \<open>+Infinity\<close> and the progress 100; if \<open>nextLevelXP\<close>
  is \<open>-0\<close> and \<open>currentXP > 0\<close>, the quotient is \<open>-Infinity\<close> and the progress 0; if both
  are zero, the quotient is \<open>NaN\<close>, the progress is \<open>NaN\<close>, and so is the width of the
  fill rectangle of the progress bar, which \<open>drawXPInfo\<close> draws when \<open>showProgress\<close> is
  set.
\<close>

theorem RankCard_zero_nextLevelXP:
  "\<not> progressSupplied options \<Longrightarrow>
     (ro_nextLevelXP options = Fin 0 \<and> jgt (ro_currentXP options) (Fin 0) \<longrightarrow>
        jdiv (ro_currentXP options) (ro_nextLevelXP options) = PInf
        \<and> r_progress (RankCard options) = Fin 100)
     \<and> (ro_nextLevelXP options = NZero \<and> jgt (ro_currentXP options) (Fin 0) \<longrightarrow>
        jdiv (ro_currentXP options) (ro_nextLevelXP options) = NInf
        \<and> r_progress (RankCard options) = Fin 0)
     \<and> (is_zero (ro_nextLevelXP options) \<and> is_zero (ro_currentXP options) \<longrightarrow>
        jdiv (ro_currentXP options) (ro_nextLevelXP options) = NaN
        \<and> r_progress (RankCard options) = NaN
        \<and> progressWidth (RankCard options) = NaN
        \<and> (r_showProgress (RankCard options) \<longrightarrow>
             (\<exists>x y. FillRect x y NaN (Fin 12) \<in> set (rank_drawXPInfo (RankCard options)))))"
proof -
  assume derived: "\<not> progressSupplied options"
  let ?c = "ro_currentXP options" and ?n = "ro_nextLevelXP options"
  have p: "r_progress (RankCard options) = calculateProgress ?c ?n"
    by (rule RankCard_progress_derived [OF derived])
  have a: "?n = Fin 0 \<and> jgt ?c (Fin 0) \<longrightarrow> jdiv ?c ?n = PInf \<and> calculateProgress ?c ?n = Fin 100"
    using jdiv_pos_zero [of ?c] by (auto simp add: calculateProgress_cases)
  have b: "?n = NZero \<and> jgt ?c (Fin 0) \<longrightarrow> jdiv ?c ?n = NInf \<and> calculateProgress ?c ?n = Fin 0"
    using jdiv_pos_zero [of ?c] by (auto simp add: calculateProgress_cases)
  have c: "is_zero ?n \<and> is_zero ?c \<longrightarrow> jdiv ?c ?n = NaN \<and> calculateProgress ?c ?n = NaN"
    using jdiv_zero_zero [of ?c ?n] by (auto simp add: calculateProgress_cases)
  have d: "r_progress (RankCard options) = NaN \<Longrightarrow> r_showProgress (RankCard options) \<Longrightarrow>
      \<exists>x y. FillRect x y NaN (Fin 12) \<in> set (rank_drawXPInfo (RankCard options))"
    using progressWidth_nan [of "RankCard options"]
    by (simp add: rank_drawXPInfo_def Let_def) blast
  show ?thesis
    using a b c d progressWidth_nan [of "RankCard options"] unfolding p [symmetric] by blast
qed

theorem RankCard_zero_nextLevelXP_witness:
  "r_progress (RankCard (rankExample\<lparr>ro_nextLevelXP := Fin 0\<rparr>)) = Fin 100
   \<and> r_progress (RankCard (rankExample\<lparr>ro_nextLevelXP := NZero\<rparr>)) = Fin 0
   \<and> r_progress (RankCard (rankExample\<lparr>ro_currentXP := Fin 0, ro_nextLevelXP := Fin 0\<rparr>)) = NaN
   \<and> progressWidth (RankCard (rankExample\<lparr>ro_currentXP := Fin 0, ro_nextLevelXP := Fin 0\<rparr>))
       = NaN
   \<and> (\<exists>x y. FillRect x y NaN (Fin 12) \<in> set (rank_drawXPInfo
         (RankCard (rankExample\<lparr>ro_currentXP := Fin 0, ro_nextLevelXP := Fin 0\<rparr>))))"
proof -
  have shown: "r_showProgress
      (RankCard (rankExample\<lparr>ro_currentXP := Fin 0, ro_nextLevelXP := Fin 0\<rparr>))"
    by (simp add: RankCard_def rankExample_def)
  show ?thesis
    using RankCard_zero_nextLevelXP [of "rankExample\<lparr>ro_nextLevelXP := Fin 0\<rparr>"]
      RankCard_zero_nextLevelXP [of "rankExample\<lparr>ro_nextLevelXP := NZero\<rparr>"]
      RankCard_zero_nextLevelXP
        [of "rankExample\<lparr>ro_currentXP := Fin 0, ro_nextLevelXP := Fin 0\<rparr>"]
      shown
    by (simp add: progressSupplied_def rankExample_def jgt_def)
qed

section \<open>Normalization of the options\<close>

text \<open>
  Claim C7: for every optional field of the three option records, leaving the field out
  gives the default value in the normalized configuration: discriminator \<open>#0000\<close>,
  background colour \<open>#2C2F33\<close>, text colour \<open>#FFFFFF\<close>, accent colour \<open>#7289DA\<close>, border
  radius 10 (Profile, Rank) or 15 (Welcome), padding 30 (Profile, Rank) or 60 (Welcome)
  on each of the four sides, and the defaults of the remaining fields as the constructors
  give them. A nested field counts as left out when its record is left out or when the
  field is left out of the record. The configuration records have no optional field, so
  nothing is unset after normalization.
\<close>

theorem omitted_fields_get_defaults:
  "(ro_discriminator ro = None \<longrightarrow> r_discriminator (RankCard ro) = ''#0000'')
   \<and> (ro_progress ro = None \<longrightarrow> r_progress (RankCard ro) = calculateProgress (ro_currentXP ro) (ro_nextLevelXP ro))
   \<and> (ro_backgroundColor ro = None \<longrightarrow> r_backgroundColor (RankCard ro) = ''#2C2F33'')
   \<and> (ro_textColor ro = None \<longrightarrow> r_textColor (RankCard ro) = ''#FFFFFF'')
   \<and> (ro_accentColor ro = None \<longrightarrow> r_accentColor (RankCard ro) = ''#7289DA'')
   \<and> (ro_rankColor ro = None \<longrightarrow> r_rankColor (RankCard ro) = ''#FFD700'')
   \<and> (ro_levelColor ro = None \<longrightarrow> r_levelColor (RankCard ro) = ''#7289DA'')
   \<and> (ro_progressBarColor ro = None \<longrightarrow> r_progressBarColor (RankCard ro) = ''#43B581'')
   \<and> (ro_progressBarBackgroundColor ro = None \<longrightarrow> r_progressBarBackgroundColor (RankCard ro) = ''#23272A'')
   \<and> (ro_backgroundImage ro = None \<longrightarrow> r_backgroundImage (RankCard ro) = [])
   \<and> (opt_field (ro_fontSize ro) rfo_username = None \<longrightarrow> rf_username (r_fontSize (RankCard ro)) = Fin 32)
   \<and> (opt_field (ro_fontSize ro) rfo_rank = None \<longrightarrow> rf_rank (r_fontSize (RankCard ro)) = Fin 24)
   \<and> (opt_field (ro_fontSize ro) rfo_level = None \<longrightarrow> rf_level (r_fontSize (RankCard ro)) = Fin 20)
   \<and> (opt_field (ro_fontSize ro) rfo_xp = None \<longrightarrow> rf_xp (r_fontSize (RankCard ro)) = Fin 16)
   \<and> (opt_field (ro_padding ro) pado_top = None \<longrightarrow> pad_top (r_padding (RankCard ro)) = Fin 30)
   \<and> (opt_field (ro_padding ro) pado_right = None \<longrightarrow> pad_right (r_padding (RankCard ro)) = Fin 30)
   \<and> (opt_field (ro_padding ro) pado_bottom = None \<longrightarrow> pad_bottom (r_padding (RankCard ro)) = Fin 30)
   \<and> (opt_field (ro_padding ro) pado_left = None \<longrightarrow> pad_left (r_padding (RankCard ro)) = Fin 30)
   \<and> (ro_borderRadius ro = None \<longrightarrow> r_borderRadius (RankCard ro) = Fin 10)
   \<and> (ro_showProgress ro = None \<longrightarrow> r_showProgress (RankCard ro))
   \<and> (po_discriminator po = None \<longrightarrow> p_discriminator (ProfileCard po) = ''#0000'')
   \<and> (po_status po = None \<longrightarrow> p_status (ProfileCard po) = ''online'')
   \<and> (po_statusColor po = None \<longrightarrow> p_statusColor (ProfileCard po) = getStatusColor (p_status (ProfileCard po)))
   \<and> (po_bio po = None \<longrightarrow> p_bio (ProfileCard po) = [])
   \<and> (po_badges po = None \<longrightarrow> p_badges (ProfileCard po) = [])
   \<and> (po_backgroundColor po = None \<longrightarrow> p_backgroundColor (ProfileCard po) = ''#2C2F33'')
   \<and> (po_textColor po = None \<longrightarrow> p_textColor (ProfileCard po) = ''#FFFFFF'')
   \<and> (po_accentColor po = None \<longrightarrow> p_accentColor (ProfileCard po) = ''#7289DA'')
   \<and> (po_backgroundImage po = None \<longrightarrow> p_backgroundImage (ProfileCard po) = [])
   \<and> (opt_field (po_fontSize po) pfo_username = None \<longrightarrow> pf_username (p_fontSize (ProfileCard po)) = Fin 32)
   \<and> (opt_field (po_fontSize po) pfo_bio = None \<longrightarrow> pf_bio (p_fontSize (ProfileCard po)) = Fin 16)
   \<and> (opt_field (po_fontSize po) pfo_badges = None \<longrightarrow> pf_badges (p_fontSize (ProfileCard po)) = Fin 14)
   \<and> (opt_field (po_padding po) pado_top = None \<longrightarrow> pad_top (p_padding (ProfileCard po)) = Fin 30)
   \<and> (opt_field (po_padding po) pado_right = None \<longrightarrow> pad_right (p_padding (ProfileCard po)) = Fin 30)
   \<and> (opt_field (po_padding po) pado_bottom = None \<longrightarrow> pad_bottom (p_padding (ProfileCard po)) = Fin 30)
   \<and> (opt_field (po_padding po) pado_left = None \<longrightarrow> pad_left (p_padding (ProfileCard po)) = Fin 30)
   \<and> (po_borderRadius po = None \<longrightarrow> p_borderRadius (ProfileCard po) = Fin 10)
   \<and> (po_layout po = None \<longrightarrow> p_layout (ProfileCard po) = ''vertical'')
   \<and> (wo_discriminator wo = None \<longrightarrow> w_discriminator (WelcomeCard wo) = ''#0000'')
   \<and> (wo_memberCount wo = None \<longrightarrow> w_memberCount (WelcomeCard wo) = Fin 0)
   \<and> (wo_backgroundColor wo = None \<longrightarrow> w_backgroundColor (WelcomeCard wo) = ''#2C2F33'')
   \<and> (wo_textColor wo = None \<longrightarrow> w_textColor (WelcomeCard wo) = ''#FFFFFF'')
   \<and> (wo_accentColor wo = None \<longrightarrow> w_accentColor (WelcomeCard wo) = ''#7289DA'')
   \<and> (wo_backgroundImage wo = None \<longrightarrow> w_backgroundImage (WelcomeCard wo) = [])
   \<and> (opt_field (wo_fontSize wo) wfo_title = None \<longrightarrow> wf_title (w_fontSize (WelcomeCard wo)) = Fin 60)
   \<and> (opt_field (wo_fontSize wo) wfo_subtitle = None \<longrightarrow> wf_subtitle (w_fontSize (WelcomeCard wo)) = Fin 28)
   \<and> (opt_field (wo_fontSize wo) wfo_memberCount = None \<longrightarrow> wf_memberCount (w_fontSize (WelcomeCard wo)) = Fin 20)
   \<and> (opt_field (wo_padding wo) pado_top = None \<longrightarrow> pad_top (w_padding (WelcomeCard wo)) = Fin 60)
   \<and> (opt_field (wo_padding wo) pado_right = None \<longrightarrow> pad_right (w_padding (WelcomeCard wo)) = Fin 60)
   \<and> (opt_field (wo_padding wo) pado_bottom = None \<longrightarrow> pad_bottom (w_padding (WelcomeCard wo)) = Fin 60)
   \<and> (opt_field (wo_padding wo) pado_left = None \<longrightarrow> pad_left (w_padding (WelcomeCard wo)) = Fin 60)
   \<and> (wo_borderRadius wo = None \<longrightarrow> w_borderRadius (WelcomeCard wo) = Fin 15)"
  by (simp add: RankCard_def ProfileCard_def WelcomeCard_def normPadding_def)

theorem omitted_fields_get_defaults_witness:
  "r_discriminator (RankCard rankExample) = ''#0000''
   \<and> r_progress (RankCard rankExample) = Fin 50
   \<and> r_backgroundColor (RankCard rankExample) = ''#2C2F33''
   \<and> r_textColor (RankCard rankExample) = ''#FFFFFF''
   \<and> r_accentColor (RankCard rankExample) = ''#7289DA''
   \<and> r_rankColor (RankCard rankExample) = ''#FFD700''
   \<and> r_levelColor (RankCard rankExample) = ''#7289DA''
   \<and> r_progressBarColor (RankCard rankExample) = ''#43B581''
   \<and> r_progressBarBackgroundColor (RankCard rankExample) = ''#23272A''
   \<and> r_backgroundImage (RankCard rankExample) = []
   \<and> r_fontSize (RankCard rankExample)
       = \<lparr> rf_username = Fin 32, rf_rank = Fin 24, rf_level = Fin 20, rf_xp = Fin 16 \<rparr>
   \<and> r_padding (RankCard rankExample)
       = \<lparr> pad_top = Fin 30, pad_right = Fin 30, pad_bottom = Fin 30, pad_left = Fin 30 \<rparr>
   \<and> r_borderRadius (RankCard rankExample) = Fin 10
   \<and> r_showProgress (RankCard rankExample)
   \<and> p_discriminator (ProfileCard profileExample) = ''#0000''
   \<and> p_status (ProfileCard profileExample) = ''online''
   \<and> p_statusColor (ProfileCard profileExample) = ''#43B581''
   \<and> p_bio (ProfileCard profileExample) = []
   \<and> p_badges (ProfileCard profileExample) = []
   \<and> p_backgroundColor (ProfileCard profileExample) = ''#2C2F33''
   \<and> p_textColor (ProfileCard profileExample) = ''#FFFFFF''
   \<and> p_accentColor (ProfileCard profileExample) = ''#7289DA''
   \<and> p_backgroundImage (ProfileCard profileExample) = []
   \<and> p_fontSize (ProfileCard profileExample)
       = \<lparr> pf_username = Fin 32, pf_bio = Fin 16, pf_badges = Fin 14 \<rparr>
   \<and> p_padding (ProfileCard profileExample)
       = \<lparr> pad_top = Fin 30, pad_right = Fin 30, pad_bottom = Fin 30, pad_left = Fin 30 \<rparr>
   \<and> p_borderRadius (ProfileCard profileExample) = Fin 10
   \<and> p_layout (ProfileCard profileExample) = ''vertical''
   \<and> w_discriminator (WelcomeCard welcomeExample) = ''#0000''
   \<and> w_memberCount (WelcomeCard welcomeExample) = Fin 0
   \<and> w_backgroundColor (WelcomeCard welcomeExample) = ''#2C2F33''
   \<and> w_textColor (WelcomeCard welcomeExample) = ''#FFFFFF''
   \<and> w_accentColor (WelcomeCard welcomeExample) = ''#7289DA''
   \<and> w_backgroundImage (WelcomeCard welcomeExample) = []
   \<and> w_fontSize (WelcomeCard welcomeExample)
       = \<lparr> wf_title = Fin 60, wf_subtitle = Fin 28, wf_memberCount = Fin 20 \<rparr>
   \<and> w_padding (WelcomeCard welcomeExample)
       = \<lparr> pad_top = Fin 60, pad_right = Fin 60, pad_bottom = Fin 60, pad_left = Fin 60 \<rparr>
   \<and> w_borderRadius (WelcomeCard welcomeExample) = Fin 15"
proof -
  have xp: "calculateProgress (Fin 50) (Fin 100) = Fin 50"
    by (simp add: calculateProgress_cases jdiv_def)
  show ?thesis
    using omitted_fields_get_defaults [of rankExample profileExample welcomeExample] xp
    by (simp add: rankExample_def profileExample_def welcomeExample_def getStatusColor_def)
qed

text \<open>
  Claim C9: a supplied value that is falsy is replaced by the default. For every options
  record and every zero \<open>z\<close>: a border radius \<open>z\<close> gives the default radius (10, or 15 for
  the welcome card), a font size or a padding \<open>z\<close> gives the default of that field, an
  empty string for a colour gives the default colour, and a progress \<open>z\<close> on a rank card
  gives the progress computed from the XP values.
\<close>

theorem falsy_fields_get_defaults:
  "is_zero z \<Longrightarrow>
     (ro_borderRadius ro = Some z \<longrightarrow> r_borderRadius (RankCard ro) = Fin 10)
     \<and> (opt_field (ro_fontSize ro) rfo_username = Some z \<longrightarrow> rf_username (r_fontSize (RankCard ro)) = Fin 32)
     \<and> (opt_field (ro_fontSize ro) rfo_rank = Some z \<longrightarrow> rf_rank (r_fontSize (RankCard ro)) = Fin 24)
     \<and> (opt_field (ro_fontSize ro) rfo_level = Some z \<longrightarrow> rf_level (r_fontSize (RankCard ro)) = Fin 20)
     \<and> (opt_field (ro_fontSize ro) rfo_xp = Some z \<longrightarrow> rf_xp (r_fontSize (RankCard ro)) = Fin 16)
     \<and> (opt_field (ro_padding ro) pado_top = Some z \<longrightarrow> pad_top (r_padding (RankCard ro)) = Fin 30)
     \<and> (opt_field (ro_padding ro) pado_right = Some z \<longrightarrow> pad_right (r_padding (RankCard ro)) = Fin 30)
     \<and> (opt_field (ro_padding ro) pado_bottom = Some z \<longrightarrow> pad_bottom (r_padding (RankCard ro)) = Fin 30)
     \<and> (opt_field (ro_padding ro) pado_left = Some z \<longrightarrow> pad_left (r_padding (RankCard ro)) = Fin 30)
     \<and> (ro_backgroundColor ro = Some [] \<longrightarrow> r_backgroundColor (RankCard ro) = ''#2C2F33'')
     \<and> (ro_textColor ro = Some [] \<longrightarrow> r_textColor (RankCard ro) = ''#FFFFFF'')
     \<and> (ro_accentColor ro = Some [] \<longrightarrow> r_accentColor (RankCard ro) = ''#7289DA'')
     \<and> (ro_rankColor ro = Some [] \<longrightarrow> r_rankColor (RankCard ro) = ''#FFD700'')
     \<and> (ro_levelColor ro = Some [] \<longrightarrow> r_levelColor (RankCard ro) = ''#7289DA'')
     \<and> (ro_progressBarColor ro = Some [] \<longrightarrow> r_progressBarColor (RankCard ro) = ''#43B581'')
     \<and> (ro_progressBarBackgroundColor ro = Some [] \<longrightarrow> r_progressBarBackgroundColor (RankCard ro) = ''#23272A'')
     \<and> (ro_progress ro = Some z \<longrightarrow> r_progress (RankCard ro) = calculateProgress (ro_currentXP ro) (ro_nextLevelXP ro))
     \<and> (po_borderRadius po = Some z \<longrightarrow> p_borderRadius (ProfileCard po) = Fin 10)
     \<and> (opt_field (po_fontSize po) pfo_username = Some z \<longrightarrow> pf_username (p_fontSize (ProfileCard po)) = Fin 32)
     \<and> (opt_field (po_fontSize po) pfo_bio = Some z \<longrightarrow> pf_bio (p_fontSize (ProfileCard po)) = Fin 16)
     \<and> (opt_field (po_fontSize po) pfo_badges = Some z \<longrightarrow> pf_badges (p_fontSize (ProfileCard po)) = Fin 14)
     \<and> (opt_field (po_padding po) pado_top = Some z \<longrightarrow> pad_top (p_padding (ProfileCard po)) = Fin 30)
     \<and> (opt_field (po_padding po) pado_right = Some z \<longrightarrow> pad_right (p_padding (ProfileCard po)) = Fin 30)
     \<and> (opt_field (po_padding po) pado_bottom = Some z \<longrightarrow> pad_bottom (p_padding (ProfileCard po)) = Fin 30)
     \<and> (opt_field (po_padding po) pado_left = Some z \<longrightarrow> pad_left (p_padding (ProfileCard po)) = Fin 30)
     \<and> (po_backgroundColor po = Some [] \<longrightarrow> p_backgroundColor (ProfileCard po) = ''#2C2F33'')
     \<and> (po_textColor po = Some [] \<longrightarrow> p_textColor (ProfileCard po) = ''#FFFFFF'')
     \<and> (po_accentColor po = Some [] \<longrightarrow> p_accentColor (ProfileCard po) = ''#7289DA'')
     \<and> (po_statusColor po = Some [] \<longrightarrow> p_statusColor (ProfileCard po) = getStatusColor (p_status (ProfileCard po)))
     \<and> (wo_borderRadius wo = Some z \<longrightarrow> w_borderRadius (WelcomeCard wo) = Fin 15)
     \<and> (opt_field (wo_fontSize wo) wfo_title = Some z \<longrightarrow> wf_title (w_fontSize (WelcomeCard wo)) = Fin 60)
     \<and> (opt_field (wo_fontSize wo) wfo_subtitle = Some z \<longrightarrow> wf_subtitle (w_fontSize (WelcomeCard wo)) = Fin 28)
     \<and> (opt_field (wo_fontSize wo) wfo_memberCount = Some z \<longrightarrow> wf_memberCount (w_fontSize (WelcomeCard wo)) = Fin 20)
     \<and> (opt_field (wo_padding wo) pado_top = Some z \<longrightarrow> pad_top (w_padding (WelcomeCard wo)) = Fin 60)
     \<and> (opt_field (wo_padding wo) pado_right = Some z \<longrightarrow> pad_right (w_padding (WelcomeCard wo)) = Fin 60)
     \<and> (opt_field (wo_padding wo) pado_bottom = Some z \<longrightarrow> pad_bottom (w_padding (WelcomeCard wo)) = Fin 60)
     \<and> (opt_field (wo_padding wo) pado_left = Some z \<longrightarrow> pad_left (w_padding (WelcomeCard wo)) = Fin 60)
     \<and> (wo_backgroundColor wo = Some [] \<longrightarrow> w_backgroundColor (WelcomeCard wo) = ''#2C2F33'')
     \<and> (wo_textColor wo = Some [] \<longrightarrow> w_textColor (WelcomeCard wo) = ''#FFFFFF'')
     \<and> (wo_accentColor wo = Some [] \<longrightarrow> w_accentColor (WelcomeCard wo) = ''#7289DA'')"
  by (simp add: RankCard_def ProfileCard_def WelcomeCard_def normPadding_def num_or_def truthy_def)

theorem falsy_fields_get_defaults_witness:
  "r_borderRadius (RankCard rankFalsy) = Fin 10
   \<and> r_fontSize (RankCard rankFalsy)
       = \<lparr> rf_username = Fin 32, rf_rank = Fin 24, rf_level = Fin 20, rf_xp = Fin 16 \<rparr>
   \<and> r_padding (RankCard rankFalsy)
       = \<lparr> pad_top = Fin 30, pad_right = Fin 30, pad_bottom = Fin 30, pad_left = Fin 30 \<rparr>
   \<and> r_backgroundColor (RankCard rankFalsy) = ''#2C2F33''
   \<and> r_textColor (RankCard rankFalsy) = ''#FFFFFF''
   \<and> r_accentColor (RankCard rankFalsy) = ''#7289DA''
   \<and> r_rankColor (RankCard rankFalsy) = ''#FFD700''
   \<and> r_levelColor (RankCard rankFalsy) = ''#7289DA''
   \<and> r_progressBarColor (RankCard rankFalsy) = ''#43B581''
   \<and> r_progressBarBackgroundColor (RankCard rankFalsy) = ''#23272A''
   \<and> r_progress (RankCard rankFalsy) = Fin 50
   \<and> p_borderRadius (ProfileCard profileFalsy) = Fin 10
   \<and> p_fontSize (ProfileCard profileFalsy)
       = \<lparr> pf_username = Fin 32, pf_bio = Fin 16, pf_badges = Fin 14 \<rparr>
   \<and> p_padding (ProfileCard profileFalsy)
       = \<lparr> pad_top = Fin 30, pad_right = Fin 30, pad_bottom = Fin 30, pad_left = Fin 30 \<rparr>
   \<and> p_backgroundColor (ProfileCard profileFalsy) = ''#2C2F33''
   \<and> p_textColor (ProfileCard profileFalsy) = ''#FFFFFF''
   \<and> p_accentColor (ProfileCard profileFalsy) = ''#7289DA''
   \<and> p_statusColor (ProfileCard profileFalsy) = ''#43B581''
   \<and> w_borderRadius (WelcomeCard welcomeFalsy) = Fin 15
   \<and> w_fontSize (WelcomeCard welcomeFalsy)
       = \<lparr> wf_title = Fin 60, wf_subtitle = Fin 28, wf_memberCount = Fin 20 \<rparr>
   \<and> w_padding (WelcomeCard welcomeFalsy)
       = \<lparr> pad_top = Fin 60, pad_right = Fin 60, pad_bottom = Fin 60, pad_left = Fin 60 \<rparr>
   \<and> w_backgroundColor (WelcomeCard welcomeFalsy) = ''#2C2F33''
   \<and> w_textColor (WelcomeCard welcomeFalsy) = ''#FFFFFF''
   \<and> w_accentColor (WelcomeCard welcomeFalsy) = ''#7289DA''"
proof -
  have zero: "is_zero (Fin 0)" by simp
  have xp: "calculateProgress (Fin 50) (Fin 100) = Fin 50"
    by (simp add: calculateProgress_cases jdiv_def)
  show ?thesis
    using falsy_fields_get_defaults [OF zero, of rankFalsy profileFalsy welcomeFalsy] xp
    by (simp add: rankFalsy_def profileFalsy_def welcomeFalsy_def zeroPadding_def
          rankExample_def profileExample_def welcomeExample_def getStatusColor_def
          RankCard_def ProfileCard_def WelcomeCard_def normPadding_def num_or_def truthy_def)
qed

text \<open>
  Claim C4: the status colour of the profile card is a total function of the status
  string: \<open>online\<close> gives \<open>#43B581\<close>, \<open>idle\<close> gives \<open>#FAA61A\<close>, \<open>dnd\<close> gives \<open>#F04747\<close>,
  \<open>offline\<close> gives \<open>#747F8D\<close>, and every other string gives \<open>#747F8D\<close>.
\<close>

theorem getStatusColor_table:
  "getStatusColor ''online'' = ''#43B581''
   \<and> getStatusColor ''idle'' = ''#FAA61A''
   \<and> getStatusColor ''dnd'' = ''#F04747''
   \<and> getStatusColor ''offline'' = ''#747F8D''
   \<and> (status \<notin> {''online'', ''idle'', ''dnd'', ''offline''} \<longrightarrow>
        getStatusColor status = ''#747F8D'')"
  by (simp add: getStatusColor_def)

theorem getStatusColor_table_witness:
  "''busy'' \<notin> {''online'', ''idle'', ''dnd'', ''offline''} \<and> getStatusColor ''busy'' = ''#747F8D''"
  using getStatusColor_table [of "''busy''"] by simp

section \<open>The word-wrap of the bio\<close>

lemma js_split_nonempty: "js_split sep s \<noteq> []"
  by (induction s) (auto split: list.splits)

lemma textsOf_append: "textsOf (xs @ ys) = textsOf xs @ textsOf ys"
  by (induction xs rule: textsOf.induct) simp_all

text \<open>The invariant of the loop: before the first word the line is empty; afterwards it
  is acceptable. Every line written inside the loop is then acceptable, and so is the
  line left over, once a word has been placed.\<close>

lemma wrapLoop_lines:
  assumes "set ws \<subseteq> W"
    and "i = 0 \<longrightarrow> line = []"
    and "0 < i \<longrightarrow> fitsOrLoneWord widthOf maxWidth W line"
  shows "(\<forall>t \<in> set (textsOf (fst (wrapLoop widthOf maxWidth tx fs ws i line y))).
            \<exists>l. t = [Str l] \<and> fitsOrLoneWord widthOf maxWidth W l)
         \<and> (ws \<noteq> [] \<or> 0 < i \<longrightarrow>
              fitsOrLoneWord widthOf maxWidth W
                (fst (snd (wrapLoop widthOf maxWidth tx fs ws i line y))))"
  using assms
proof (induction ws arbitrary: i line y)
  case Nil
  then show ?case by simp
next
  case (Cons w ws)
  let ?test = "line @ w @ '' ''"
  let ?y = "jadd (jadd (num_or y (Fin 0)) (num_or fs (Fin 0))) (Fin 5)"
  have w: "w \<in> W" and ws: "set ws \<subseteq> W"
    using Cons.prems(1) by simp_all
  show ?case
  proof (cases "jgt (widthOf ?test) maxWidth \<and> 0 < i")
    case True
    have single: "fitsOrLoneWord widthOf maxWidth W (w @ '' '')"
      using w by (auto simp add: fitsOrLoneWord_def loneWordLine_def)
    have line: "fitsOrLoneWord widthOf maxWidth W line"
      using True Cons.prems(3) by simp
    obtain ops rest where
      r: "wrapLoop widthOf maxWidth tx fs ws (Suc i) (w @ '' '') ?y = (ops, rest)"
      by (cases "wrapLoop widthOf maxWidth tx fs ws (Suc i) (w @ '' '') ?y")
    have ih: "(\<forall>t \<in> set (textsOf ops). \<exists>l. t = [Str l] \<and> fitsOrLoneWord widthOf maxWidth W l)
         \<and> fitsOrLoneWord widthOf maxWidth W (fst rest)"
      using Cons.IH [of "Suc i" "w @ '' ''" ?y] ws single r by simp
    have step: "wrapLoop widthOf maxWidth tx fs (w # ws) i line y
        = (FillText [Str line] tx (jadd (num_or y (Fin 0)) (num_or fs (Fin 0))) # ops, rest)"
      using True r by (simp add: Let_def)
    show ?thesis
      unfolding step using ih line by simp
  next
    case False
    have test: "fitsOrLoneWord widthOf maxWidth W ?test"
    proof (cases "0 < i")
      case True
      with False show ?thesis by (simp add: fitsOrLoneWord_def loneWordLine_def)
    next
      case False
      then have "line = []" using Cons.prems(2) by simp
      then show ?thesis using w by (auto simp add: fitsOrLoneWord_def loneWordLine_def)
    qed
    have ih: "(\<forall>t \<in> set (textsOf (fst (wrapLoop widthOf maxWidth tx fs ws (Suc i) ?test y))).
            \<exists>l. t = [Str l] \<and> fitsOrLoneWord widthOf maxWidth W l)
         \<and> fitsOrLoneWord widthOf maxWidth W
             (fst (snd (wrapLoop widthOf maxWidth tx fs ws (Suc i) ?test y)))"
      using Cons.IH [of "Suc i" ?test y] ws test by simp
    have step: "wrapLoop widthOf maxWidth tx fs (w # ws) i line y
        = wrapLoop widthOf maxWidth tx fs ws (Suc i) ?test y"
      using False by (auto simp add: Let_def)
    show ?thesis
      unfolding step using ih by simp
  qed
qed

text \<open>
  Claim C5, as stated: no line the word-wrap writes exceeds the maximal width, except a
  line consisting of a single word that is by itself wider than the maximal width. It
  fails because the loop measures and writes every word with a trailing space: in a
  column 8 units wide, at one unit per character, the bio \<open>aa abcdefgh\<close> is written as
  \<open>aa \<close> and \<open>abcdefgh \<close>; the second line measures 9, while its word measures 8 and fits.
  The same two lines come out of \<open>drawText\<close> for a profile card with a left padding
  of 612.
\<close>

theorem wrapBio_word_fits_line_overflows:
  "textsOf (fst (wrapBio charWidth (Fin 8) (Fin 0) (Fin 16) ''aa abcdefgh'' (Fin 0)))
     = [[Str ''aa ''], [Str ''abcdefgh '']]
   \<and> jgt (charWidth ''abcdefgh '') (Fin 8)
   \<and> \<not> jgt (charWidth ''abcdefgh'') (Fin 8)
   \<and> \<not> singleWideWord charWidth (Fin 8) (js_split CHR '' '' ''aa abcdefgh'') ''abcdefgh ''
   \<and> textsOf (profile_drawText host404 (ProfileCard narrowProfile))
       = [[Str ''ada''], [Str ''#0000''], [Str ''aa ''], [Str ''abcdefgh '']]"
proof -
  have lines:
    "textsOf (fst (wrapBio charWidth (Fin 8) (Fin 0) (Fin 16) ''aa abcdefgh'' (Fin 0)))
       = [[Str ''aa ''], [Str ''abcdefgh '']]"
    by (simp add: wrapBio_def charWidth_def jgt_def Let_def)
  have widths: "jgt (charWidth ''abcdefgh '') (Fin 8) \<and> \<not> jgt (charWidth ''abcdefgh'') (Fin 8)"
    by (simp add: charWidth_def jgt_def)
  have exception:
    "\<not> singleWideWord charWidth (Fin 8) (js_split CHR '' '' ''aa abcdefgh'') ''abcdefgh ''"
    by (simp add: singleWideWord_def charWidth_def jgt_def)
  have column: "jsub (Fin 800) (jadd (jadd (Fin 612) (Fin 120)) (Fin 60)) = Fin 8"
    by (simp add: jsub_def jadd_def)
  have stage: "textsOf (profile_drawText host404 (ProfileCard narrowProfile))
       = [[Str ''ada''], [Str ''#0000''], [Str ''aa ''], [Str ''abcdefgh '']]"
    by (simp add: profile_drawText_def ProfileCard_def narrowProfile_def profileExample_def
          normPadding_def profile_avatarSize_def num_or_def truthy_def host404_def column
          wrapBio_def charWidth_def jgt_def textsOf_append Let_def)
  show ?thesis
    using lines widths exception stage by simp
qed

text \<open>
  Claim C5, amended: for every bio, every maximal width and every width-measuring
  function, each line the word-wrap writes is a plain string, and no line exceeds the
  maximal width except a line that consists of a single word of the bio followed by the
  space the loop appends to every word, where it is the word together with that space
  that is wider than the maximal width (the word alone may fit); such a line passes
  through unwrapped.
\<close>

theorem wrapBio_lines:
  "\<forall>t \<in> set (textsOf (fst (wrapBio widthOf maxWidth tx fs bio y))).
     \<exists>line. t = [Str line]
       \<and> (jgt (widthOf line) maxWidth \<longrightarrow>
            (\<exists>w \<in> set (js_split CHR '' '' bio).
               line = w @ '' '' \<and> jgt (widthOf (w @ '' '')) maxWidth))"
proof -
  let ?W = "set (js_split CHR '' '' bio)"
  obtain ops line y' where r:
    "wrapLoop widthOf maxWidth tx fs (js_split CHR '' '' bio) 0 [] y = (ops, line, y')"
    by (cases "wrapLoop widthOf maxWidth tx fs (js_split CHR '' '' bio) 0 [] y")
  have "(\<forall>t \<in> set (textsOf ops). \<exists>l. t = [Str l] \<and> fitsOrLoneWord widthOf maxWidth ?W l)
        \<and> fitsOrLoneWord widthOf maxWidth ?W line"
    using wrapLoop_lines [of "js_split CHR '' '' bio" ?W 0 "[]" widthOf maxWidth tx fs y]
      js_split_nonempty [of "CHR '' ''" bio] r by simp
  then show ?thesis
    using r by (auto simp add: wrapBio_def textsOf_append fitsOrLoneWord_def loneWordLine_def)
qed

theorem wrapBio_lines_witness:
  "textsOf (fst (wrapBio charWidth (Fin 6) (Fin 0) (Fin 16) ''aa bb abcdefgh cc'' (Fin 0)))
     = [[Str ''aa bb ''], [Str ''abcdefgh ''], [Str ''cc '']]
   \<and> jgt (charWidth ''abcdefgh '') (Fin 6)
   \<and> (\<exists>w \<in> set (js_split CHR '' '' ''aa bb abcdefgh cc'').
         ''abcdefgh '' = w @ '' '' \<and> jgt (charWidth (w @ '' '')) (Fin 6))"
proof -
  have lines:
    "textsOf (fst (wrapBio charWidth (Fin 6) (Fin 0) (Fin 16) ''aa bb abcdefgh cc'' (Fin 0)))
       = [[Str ''aa bb ''], [Str ''abcdefgh ''], [Str ''cc '']]"
    by (simp add: wrapBio_def charWidth_def jgt_def Let_def)
  have wide: "jgt (charWidth ''abcdefgh '') (Fin 6)"
    by (simp add: charWidth_def jgt_def)
  have "[Str ''abcdefgh ''] \<in> set (textsOf (fst
      (wrapBio charWidth (Fin 6) (Fin 0) (Fin 16) ''aa bb abcdefgh cc'' (Fin 0))))"
    by (simp add: lines)
  from bspec [OF wrapBio_lines this] wide
  have "\<exists>w \<in> set (js_split CHR '' '' ''aa bb abcdefgh cc'').
          ''abcdefgh '' = w @ '' '' \<and> jgt (charWidth (w @ '' '')) (Fin 6)"
    by blast
  with lines wide show ?thesis by blast
qed

section \<open>Loading the avatar and the background\<close>

lemma drawBackgroundWith_absent:
  "drawBackgroundWith E w h color [] alpha stops = Inr (solidBackground w h color stops)"
  by (simp add: drawBackgroundWith_def solidBackground_def)

lemma drawBackgroundWith_fails:
  "ref \<noteq> [] \<Longrightarrow> loadPath E ref = Inl e \<Longrightarrow> drawBackgroundWith E w h color ref alpha stops = Inl e"
  by (simp add: drawBackgroundWith_def loadBackground_def)

lemma drawBackgroundWith_loaded:
  "ref \<noteq> [] \<Longrightarrow> loadPath E ref = Inr img \<Longrightarrow>
     drawBackgroundWith E w h color ref alpha stops =
       Inr [SetFillStyle (Color color), FillRect (Fin 0) (Fin 0) w h,
            SetGlobalAlpha alpha, DrawImage img (Fin 0) (Fin 0) w h, SetGlobalAlpha 1,
            SetFillStyle (LinearGradient (Fin 0) (Fin 0) w h stops),
            FillRect (Fin 0) (Fin 0) w h]"
  by (simp add: drawBackgroundWith_def loadBackground_def)

lemma loadAvatar_not_found:
  "isRemote url \<Longrightarrow> fetch E url = Inr response \<Longrightarrow> \<not> resp_ok response \<Longrightarrow>
     loadAvatar E url = Inl (fetchFailure url (resp_statusText response))"
  by (simp add: isRemote_def loadAvatar_def fetchBody_def fetchFailure_def errorMessage_def)

text \<open>
  Claim C6: for the profile card and the rank card, with no background-image reference
  the loader gives no bitmap and no error, the background stage is the solid colour under
  the overlay, and the render goes on (it succeeds as soon as the avatar loads); with a
  reference that the decoder rejects, the background stage and the whole render are
  rejected with the decoder's error, and nothing is drawn in its place.
\<close>

theorem optional_background:
  "(po_backgroundImage po = None \<longrightarrow>
      loadBackground E (p_backgroundImage (ProfileCard po)) = Inr None
      \<and> profile_drawBackground E (ProfileCard po)
          = Inr (solidBackground (Fin 800) (Fin 400) (p_backgroundColor (ProfileCard po))
                   [(0, ''rgba(0, 0, 0, 0.3)''), (1, ''rgba(0, 0, 0, 0.7)'')])
      \<and> (\<forall>avatar. loadAvatar E (po_avatarUrl po) = Inr avatar \<longrightarrow>
            (\<exists>ops. renderProfile E po
               = Inr (solidBackground (Fin 800) (Fin 400) (p_backgroundColor (ProfileCard po))
                        [(0, ''rgba(0, 0, 0, 0.3)''), (1, ''rgba(0, 0, 0, 0.7)'')] @ ops))))
   \<and> (\<forall>ref e. po_backgroundImage po = Some ref \<and> ref \<noteq> [] \<and> loadPath E ref = Inl e \<longrightarrow>
         profile_drawBackground E (ProfileCard po) = Inl e \<and> renderProfile E po = Inl e)
   \<and> (ro_backgroundImage ro = None \<longrightarrow>
      loadBackground E (r_backgroundImage (RankCard ro)) = Inr None
      \<and> rank_drawBackground E (RankCard ro)
          = Inr (solidBackground (Fin 900) (Fin 300) (r_backgroundColor (RankCard ro))
                   [(0, ''rgba(0, 0, 0, 0.4)''), (1, ''rgba(0, 0, 0, 0.6)'')])
      \<and> (\<forall>avatar. loadAvatar E (ro_avatarUrl ro) = Inr avatar \<longrightarrow>
            (\<exists>ops. renderRank E ro
               = Inr (solidBackground (Fin 900) (Fin 300) (r_backgroundColor (RankCard ro))
                        [(0, ''rgba(0, 0, 0, 0.4)''), (1, ''rgba(0, 0, 0, 0.6)'')] @ ops))))
   \<and> (\<forall>ref e. ro_backgroundImage ro = Some ref \<and> ref \<noteq> [] \<and> loadPath E ref = Inl e \<longrightarrow>
         rank_drawBackground E (RankCard ro) = Inl e \<and> renderRank E ro = Inl e)"
proof -
  have p_img: "po_backgroundImage po = None \<Longrightarrow> p_backgroundImage (ProfileCard po) = []"
    by (simp add: ProfileCard_def)
  have r_img: "ro_backgroundImage ro = None \<Longrightarrow> r_backgroundImage (RankCard ro) = []"
    by (simp add: RankCard_def)
  have p_ref: "po_backgroundImage po = Some ref \<Longrightarrow> ref \<noteq> [] \<Longrightarrow>
      p_backgroundImage (ProfileCard po) = ref" for ref
    by (simp add: ProfileCard_def)
  have r_ref: "ro_backgroundImage ro = Some ref \<Longrightarrow> ref \<noteq> [] \<Longrightarrow>
      r_backgroundImage (RankCard ro) = ref" for ref
    by (simp add: RankCard_def)
  have p_url: "p_avatarUrl (ProfileCard po) = po_avatarUrl po"
    by (simp add: ProfileCard_def)
  have r_url: "r_avatarUrl (RankCard ro) = ro_avatarUrl ro"
    by (simp add: RankCard_def)
  have p_absent: "po_backgroundImage po = None \<Longrightarrow>
      loadBackground E (p_backgroundImage (ProfileCard po)) = Inr None
      \<and> profile_drawBackground E (ProfileCard po)
          = Inr (solidBackground (Fin 800) (Fin 400) (p_backgroundColor (ProfileCard po))
                   [(0, ''rgba(0, 0, 0, 0.3)''), (1, ''rgba(0, 0, 0, 0.7)'')])"
    using p_img by (simp add: profile_drawBackground_def drawBackgroundWith_absent loadBackground_def)
  have r_absent: "ro_backgroundImage ro = None \<Longrightarrow>
      loadBackground E (r_backgroundImage (RankCard ro)) = Inr None
      \<and> rank_drawBackground E (RankCard ro)
          = Inr (solidBackground (Fin 900) (Fin 300) (r_backgroundColor (RankCard ro))
                   [(0, ''rgba(0, 0, 0, 0.4)''), (1, ''rgba(0, 0, 0, 0.6)'')])"
    using r_img by (simp add: rank_drawBackground_def drawBackgroundWith_absent loadBackground_def)
  have p_render: "po_backgroundImage po = None \<Longrightarrow> loadAvatar E (po_avatarUrl po) = Inr avatar \<Longrightarrow>
      \<exists>ops. renderProfile E po
               = Inr (solidBackground (Fin 800) (Fin 400) (p_backgroundColor (ProfileCard po))
                        [(0, ''rgba(0, 0, 0, 0.3)''), (1, ''rgba(0, 0, 0, 0.7)'')] @ ops)" for avatar
    using p_absent by (simp add: renderProfile_def profile_toBuffer_def profile_drawAvatar_def p_url Let_def)
  have r_render: "ro_backgroundImage ro = None \<Longrightarrow> loadAvatar E (ro_avatarUrl ro) = Inr avatar \<Longrightarrow>
      \<exists>ops. renderRank E ro
               = Inr (solidBackground (Fin 900) (Fin 300) (r_backgroundColor (RankCard ro))
                        [(0, ''rgba(0, 0, 0, 0.4)''), (1, ''rgba(0, 0, 0, 0.6)'')] @ ops)" for avatar
    using r_absent by (simp add: renderRank_def rank_toBuffer_def rank_drawAvatar_def r_url Let_def)
  have p_fail: "po_backgroundImage po = Some ref \<Longrightarrow> ref \<noteq> [] \<Longrightarrow> loadPath E ref = Inl e \<Longrightarrow>
      profile_drawBackground E (ProfileCard po) = Inl e \<and> renderProfile E po = Inl e" for ref e
    using p_ref [of ref]
    by (simp add: renderProfile_def profile_toBuffer_def profile_drawBackground_def
          drawBackgroundWith_fails)
  have r_fail: "ro_backgroundImage ro = Some ref \<Longrightarrow> ref \<noteq> [] \<Longrightarrow> loadPath E ref = Inl e \<Longrightarrow>
      rank_drawBackground E (RankCard ro) = Inl e \<and> renderRank E ro = Inl e" for ref e
    using r_ref [of ref]
    by (simp add: renderRank_def rank_toBuffer_def rank_drawBackground_def
          drawBackgroundWith_fails)
  show ?thesis
    using p_absent r_absent p_render r_render p_fail r_fail by blast
qed

theorem optional_background_witness:
  "profile_drawBackground host404 (ProfileCard (profileExample\<lparr>po_avatarUrl := ''a.png''\<rparr>))
     = Inr (solidBackground (Fin 800) (Fin 400) ''#2C2F33''
              [(0, ''rgba(0, 0, 0, 0.3)''), (1, ''rgba(0, 0, 0, 0.7)'')])
   \<and> (\<exists>ops. renderProfile host404 (profileExample\<lparr>po_avatarUrl := ''a.png''\<rparr>)
         = Inr (solidBackground (Fin 800) (Fin 400) ''#2C2F33''
                  [(0, ''rgba(0, 0, 0, 0.3)''), (1, ''rgba(0, 0, 0, 0.7)'')] @ ops))
   \<and> renderProfile host404 (profileExample\<lparr>po_backgroundImage := Some ''missing.png''\<rparr>)
       = Inl (Error ''decode failed'')
   \<and> (\<exists>ops. renderRank host404 (rankExample\<lparr>ro_avatarUrl := ''a.png''\<rparr>)
         = Inr (solidBackground (Fin 900) (Fin 300) ''#2C2F33''
                  [(0, ''rgba(0, 0, 0, 0.4)''), (1, ''rgba(0, 0, 0, 0.6)'')] @ ops))
   \<and> renderRank host404 (rankExample\<lparr>ro_backgroundImage := Some ''missing.png''\<rparr>)
       = Inl (Error ''decode failed'')"
proof -
  have avatar: "loadAvatar host404 ''a.png'' = Inr (Bitmap 0)"
    by (simp add: loadAvatar_def host404_def)
  have missing: "loadPath host404 ''missing.png'' = Inl (Error ''decode failed'')"
    by (simp add: host404_def)
  show ?thesis
    using optional_background
        [of "profileExample\<lparr>po_avatarUrl := ''a.png''\<rparr>" host404
            "rankExample\<lparr>ro_avatarUrl := ''a.png''\<rparr>"]
      optional_background
        [of "profileExample\<lparr>po_backgroundImage := Some ''missing.png''\<rparr>" host404
            "rankExample\<lparr>ro_backgroundImage := Some ''missing.png''\<rparr>"]
      avatar missing
    by (simp add: profileExample_def rankExample_def ProfileCard_def RankCard_def)
qed

lemma status404: "resp_status response = 404 \<Longrightarrow> \<not> resp_ok response"
  by (simp add: resp_ok_def)

lemma welcome_render_avatar_fails:
  "loadAvatar E (wo_avatarUrl wo) = Inl e \<Longrightarrow> renderWelcome E wo = Inl e"
  by (simp add: renderWelcome_def welcome_toBuffer_def welcome_drawBackground_def WelcomeCard_def)

lemma profile_render_avatar_fails:
  "loadAvatar E (po_avatarUrl po) = Inl e \<Longrightarrow>
     renderProfile E po
       = (case profile_drawBackground E (ProfileCard po) of Inl b \<Rightarrow> Inl b | Inr ops \<Rightarrow> Inl e)"
  by (cases "profile_drawBackground E (ProfileCard po)")
     (simp_all add: renderProfile_def profile_toBuffer_def profile_drawAvatar_def
        ProfileCard_def Let_def)

lemma rank_render_avatar_fails:
  "loadAvatar E (ro_avatarUrl ro) = Inl e \<Longrightarrow>
     renderRank E ro
       = (case rank_drawBackground E (RankCard ro) of Inl b \<Rightarrow> Inl b | Inr ops \<Rightarrow> Inl e)"
  by (cases "rank_drawBackground E (RankCard ro)")
     (simp_all add: renderRank_def rank_toBuffer_def rank_drawAvatar_def RankCard_def Let_def)

lemma drawBackgroundWith_cases:
  "drawBackgroundWith E w h color ref alpha stops =
     (if ref = [] then Inr (solidBackground w h color stops)
      else case loadPath E ref of
             Inl e \<Rightarrow> Inl e
           | Inr img \<Rightarrow>
               Inr [SetFillStyle (Color color), FillRect (Fin 0) (Fin 0) w h,
                    SetGlobalAlpha alpha, DrawImage img (Fin 0) (Fin 0) w h, SetGlobalAlpha 1,
                    SetFillStyle (LinearGradient (Fin 0) (Fin 0) w h stops),
                    FillRect (Fin 0) (Fin 0) w h])"
  by (cases "loadPath E ref")
     (simp_all add: drawBackgroundWith_absent drawBackgroundWith_fails drawBackgroundWith_loaded)

text \<open>
  Claim C3, as stated: for every card type, a render whose avatar URL answers 404 is
  rejected with an error whose message refers to "404". The message carries the status
  text of the response and the URL, not the status code: for a response
  \<open>404 Not Found\<close> it does not contain "404".
\<close>

theorem avatar_404_message_counterexample:
  "isRemote (wo_avatarUrl welcomeExample)
   \<and> fetch host404 (wo_avatarUrl welcomeExample) = Inr notFound
   \<and> resp_status notFound = 404
   \<and> renderWelcome host404 welcomeExample
       = Inl (Error (''Failed to load external avatar: https://cdn.example/a.png. ''
                     @ ''Error: Failed to fetch image: Not Found''))
   \<and> \<not> str_includes (''Failed to load external avatar: https://cdn.example/a.png. ''
                        @ ''Error: Failed to fetch image: Not Found'') ''404''"
  by (simp add: welcomeExample_def host404_def notFound_def isRemote_def renderWelcome_def
        welcome_toBuffer_def welcome_drawBackground_def WelcomeCard_def loadAvatar_def
        fetchBody_def resp_ok_def errorMessage_def)

text \<open>
  Claim C3, amended: for every card type, a render with a remote avatar URL whose GET
  answers with status 404 is rejected, and the error is an \<open>Error\<close> with the message
  \<open>Failed to load external avatar: <url>. Error: Failed to fetch image: <status text>\<close>.
  For the welcome card this is the outcome of every such render; for the profile and
  the rank card it is the outcome when the background image is absent or loads, and when
  the background image fails to load the render is rejected with that failure instead,
  before the avatar is asked for.
\<close>

theorem avatar_404_rejects:
  assumes "isRemote url" and "fetch E url = Inr response" and "resp_status response = 404"
  shows "(wo_avatarUrl wo = url \<longrightarrow>
            renderWelcome E wo = Inl (fetchFailure url (resp_statusText response)))
       \<and> (po_avatarUrl po = url \<longrightarrow>
            renderProfile E po =
              (if p_backgroundImage (ProfileCard po) = [] then
                 Inl (fetchFailure url (resp_statusText response))
               else case loadPath E (p_backgroundImage (ProfileCard po)) of
                      Inl e \<Rightarrow> Inl e
                    | Inr img \<Rightarrow> Inl (fetchFailure url (resp_statusText response))))
       \<and> (ro_avatarUrl ro = url \<longrightarrow>
            renderRank E ro =
              (if r_backgroundImage (RankCard ro) = [] then
                 Inl (fetchFailure url (resp_statusText response))
               else case loadPath E (r_backgroundImage (RankCard ro)) of
                      Inl e \<Rightarrow> Inl e
                    | Inr img \<Rightarrow> Inl (fetchFailure url (resp_statusText response))))"
proof -
  have avatar: "loadAvatar E url = Inl (fetchFailure url (resp_statusText response))"
    using assms by (simp add: loadAvatar_not_found status404)
  have w: "wo_avatarUrl wo = url \<Longrightarrow>
      renderWelcome E wo = Inl (fetchFailure url (resp_statusText response))"
    using avatar by (simp add: welcome_render_avatar_fails)
  have p: "po_avatarUrl po = url \<Longrightarrow>
      renderProfile E po =
        (if p_backgroundImage (ProfileCard po) = [] then
           Inl (fetchFailure url (resp_statusText response))
         else case loadPath E (p_backgroundImage (ProfileCard po)) of
                Inl e \<Rightarrow> Inl e
              | Inr img \<Rightarrow> Inl (fetchFailure url (resp_statusText response)))"
    using avatar
    by (simp add: profile_render_avatar_fails profile_drawBackground_def
          drawBackgroundWith_cases split: sum.splits)
  have r: "ro_avatarUrl ro = url \<Longrightarrow>
      renderRank E ro =
        (if r_backgroundImage (RankCard ro) = [] then
           Inl (fetchFailure url (resp_statusText response))
         else case loadPath E (r_backgroundImage (RankCard ro)) of
                Inl e \<Rightarrow> Inl e
              | Inr img \<Rightarrow> Inl (fetchFailure url (resp_statusText response)))"
    using avatar
    by (simp add: rank_render_avatar_fails rank_drawBackground_def
          drawBackgroundWith_cases split: sum.splits)
  show ?thesis using w p r by blast
qed

theorem avatar_404_rejects_witness:
  "renderWelcome host404 welcomeExample
     = Inl (fetchFailure ''https://cdn.example/a.png'' ''Not Found'')
   \<and> renderProfile host404 profileExample
     = Inl (fetchFailure ''https://cdn.example/a.png'' ''Not Found'')
   \<and> renderRank host404 rankExample
     = Inl (fetchFailure ''https://cdn.example/a.png'' ''Not Found'')
   \<and> renderRank host404 (rankExample\<lparr>ro_backgroundImage := Some ''missing.png''\<rparr>)
     = Inl (Error ''decode failed'')"
proof -
  have remote: "isRemote ''https://cdn.example/a.png''"
    by (simp add: isRemote_def)
  have answer: "fetch host404 ''https://cdn.example/a.png'' = Inr notFound"
    by (simp add: host404_def)
  have status: "resp_status notFound = 404"
    by (simp add: notFound_def)
  show ?thesis
    using avatar_404_rejects [OF remote answer status, of welcomeExample profileExample rankExample]
      avatar_404_rejects [OF remote answer status, of welcomeExample profileExample
        "rankExample\<lparr>ro_backgroundImage := Some ''missing.png''\<rparr>"]
    by (simp add: welcomeExample_def profileExample_def rankExample_def notFound_def
          ProfileCard_def RankCard_def host404_def)
qed

section \<open>The background of the welcome card\<close>

text \<open>
  Claim C8: the welcome card takes no background image into account. Its background
  stage draws the avatar over a whole offscreen surface, puts that surface on the visible
  one under the filter \<open>blur(8px)\<close> and adds the overlay (and is rejected when the
  avatar does not load); and two option records that differ only in \<open>backgroundImage\<close>
  give the same render.
\<close>

theorem welcome_ignores_backgroundImage:
  "renderWelcome E (wo\<lparr>wo_backgroundImage := b\<rparr>) = renderWelcome E wo
   \<and> (\<forall>avatar. loadAvatar E (wo_avatarUrl wo) = Inr avatar \<longrightarrow>
         welcome_drawBackground E (WelcomeCard wo)
           = Inr [Save,
                  SetFilter ''blur(8px)'',
                  DrawSurface (Fin 1024) (Fin 500)
                    [DrawImage avatar (Fin 0) (Fin 0) (Fin 1024) (Fin 500)] (Fin 0) (Fin 0),
                  SetFilter ''none'',
                  Restore,
                  SetFillStyle (LinearGradient (Fin 0) (Fin 0) (Fin 0) (Fin 500)
                    [(0, ''rgba(0, 0, 0, 0.4)''), (1, ''rgba(0, 0, 0, 0.7)'')]),
                  FillRect (Fin 0) (Fin 0) (Fin 1024) (Fin 500)])
   \<and> (\<forall>e. loadAvatar E (wo_avatarUrl wo) = Inl e \<longrightarrow>
         welcome_drawBackground E (WelcomeCard wo) = Inl e)"
proof -
  have same: "renderWelcome E (wo\<lparr>wo_backgroundImage := b\<rparr>) = renderWelcome E wo"
    by (simp add: renderWelcome_def welcome_toBuffer_def welcome_drawBackground_def
          welcome_drawAvatar_def welcome_drawText_def welcome_drawAccentBar_def WelcomeCard_def)
  have url: "w_avatarUrl (WelcomeCard wo) = wo_avatarUrl wo"
    by (simp add: WelcomeCard_def)
  show ?thesis
    using same by (simp add: welcome_drawBackground_def url)
qed

theorem welcome_ignores_backgroundImage_witness:
  "renderWelcome host404 (welcomeExample\<lparr>wo_avatarUrl := ''a.png'', wo_backgroundImage := Some ''missing.png''\<rparr>)
     = renderWelcome host404 (welcomeExample\<lparr>wo_avatarUrl := ''a.png''\<rparr>)
   \<and> welcome_drawBackground host404 (WelcomeCard (welcomeExample\<lparr>wo_avatarUrl := ''a.png''\<rparr>))
     = Inr [Save,
            SetFilter ''blur(8px)'',
            DrawSurface (Fin 1024) (Fin 500)
              [DrawImage (Bitmap 0) (Fin 0) (Fin 0) (Fin 1024) (Fin 500)] (Fin 0) (Fin 0),
            SetFilter ''none'',
            Restore,
            SetFillStyle (LinearGradient (Fin 0) (Fin 0) (Fin 0) (Fin 500)
              [(0, ''rgba(0, 0, 0, 0.4)''), (1, ''rgba(0, 0, 0, 0.7)'')]),
            FillRect (Fin 0) (Fin 0) (Fin 1024) (Fin 500)]
   \<and> welcome_drawBackground host404
         (WelcomeCard (welcomeExample\<lparr>wo_avatarUrl := ''missing.png''\<rparr>))
     = Inl (Error ''decode failed'')"
proof -
  have avatar: "loadAvatar host404 (wo_avatarUrl (welcomeExample\<lparr>wo_avatarUrl := ''a.png''\<rparr>))
      = Inr (Bitmap 0)"
    by (simp add: loadAvatar_def host404_def)
  have missing:
    "loadAvatar host404 (wo_avatarUrl (welcomeExample\<lparr>wo_avatarUrl := ''missing.png''\<rparr>))
      = Inl (Error ''decode failed'')"
    by (simp add: loadAvatar_def host404_def)
  show ?thesis
    using welcome_ignores_backgroundImage
      [where E = host404 and wo = "welcomeExample\<lparr>wo_avatarUrl := ''a.png''\<rparr>"
         and b = "Some ''missing.png''"]
      welcome_ignores_backgroundImage
      [where E = host404 and wo = "welcomeExample\<lparr>wo_avatarUrl := ''missing.png''\<rparr>"
         and b = None]
      avatar missing
    by simp
qed

end
